theory Spec2Isabelle
  imports Complex_Main
begin

section \<open>Data model of the carbon calculator\<close>

text \<open>
  The development embeds \<^verbatim>\<open>src/carbonCalculator.ts\<close>, \<^verbatim>\<open>computeDonationBreakdown\<close> of
  \<^verbatim>\<open>src/donationBreakdown.ts\<close> and the share normaliser of \<^verbatim>\<open>src/donationBuckets.ts\<close>.

  A JavaScript number that has passed \<^verbatim>\<open>toNum\<close> or \<^verbatim>\<open>Number.isFinite\<close> is a
  \<open>real\<close>; \<open>null\<close>, \<open>undefined\<close> and the non-finite values are \<open>None\<close>. Arithmetic is
  exact, so every mass and every sum of the model differs from the program's double by
  the rounding of the operations that produced it. The section on rounding below says
  how the model treats the tests whose outcome can depend on that rounding.

  The database client is a record of tables. A table is either the list of its rows
  (in the order a query returns them) or the message of the error the client reports for
  every query on it. A query filters the rows. A row has the columns that the two
  modules read; \<^verbatim>\<open>carbonCalculator.ts\<close> reads fewer of them than
  \<^verbatim>\<open>donationBreakdown.ts\<close>.
\<close>

record DonationRow =
  d_id :: int
  d_dish_id :: "int option"
  d_component_id :: "int option"
  donated_weight_kg :: "real option"
  kitchen_id :: "string option"
  donated_at :: "string option"

record DishRow =
  dish_row_id :: int
  restaurant_id :: string
  menu_date :: string
  title_fi :: "string option"
  title_en :: "string option"
  category :: "string option"

record DishComponentRow =
  c_id :: int
  c_dish_id :: int
  name_raw :: "string option"
  plate_share :: "real option"
  component_type :: "string option"

record IngredientRow =
  component_id :: int
  ingredient_core :: string
  share_of_component :: "real option"
  is_water :: bool
  is_salt :: bool
  seq_no :: "int option"
  base_name :: "string option"

text \<open>
  A row of \<^verbatim>\<open>ingredient_mappings\<close>: the two columns the queries filter on
  (\<open>source_system\<close>, \<open>is_active\<close>) and the columns of the source's \<^verbatim>\<open>MappingRow\<close>.
\<close>

record MappingRow =
  source_system :: string
  is_active :: bool
  m_ingredient_core :: string
  luke_foodid :: "int option"
  weight_state :: "string option"
  yield_cooked_per_raw :: "real option"
  co2_override_per_kg :: "real option"

record LukeFoodRow =
  foodid :: int
  kg_co2e_per_kg :: "real option"
  g_co2e_per_100g :: "real option"

record Env =
  MAPPING_SOURCE_SYSTEM :: "string option"
  donations :: "string + DonationRow list"
  dishes :: "string + DishRow list"
  dish_components :: "string + DishComponentRow list"
  component_ingredients :: "string + IngredientRow list"
  ingredient_mappings :: "string + MappingRow list"
  luke_foods :: "string + LukeFoodRow list"

text \<open>The four accumulators every component computation returns.\<close>

record Totals =
  co2eKg :: real
  unmappedKg :: real
  mappedKg :: real
  ignoredKg :: real

record DonationCarbonResult =
  r_donation_id :: int
  r_dish_id :: "int option"
  r_component_id :: "int option"
  r_donated_weight_kg :: real
  total_co2e_kg :: real
  total_food_mass_kg :: real
  unmapped_mass_kg :: real
  co2_per_kg :: real
  mapped_mass_kg :: real
  ignored_mass_kg :: real
  mapping_source_system :: string

text \<open>
  Every \<^verbatim>\<open>throw\<close> of the source is a constructor. The two data-integrity errors carry
  the id and the sum that the source prints into the message. The last constructor is
  not an outcome of the program: \<open>RoundingDependent\<close> marks an input on which the exact
  arithmetic of the model cannot tell which branch the doubles of the program take (see
  the section on rounding); it carries the id of the dish or of the component and the
  sum that was compared.
\<close>

datatype error =
    DonationNotFound int
  | InvalidDonatedWeight int
  | NeitherDishNorComponent int
  | LoadError string string
  | IngredientShareSumExceeds int real
  | PlateShareSumExceeds int real
  | RoundingDependent int real

section \<open>Constants and helpers\<close>

definition MIN_SHARE_FRAC :: real where
  "MIN_SHARE_FRAC = 10 / 100"

definition PLATE_SHARE_NORMALIZE_EPS :: real where
  "PLATE_SHARE_NORMALIZE_EPS = 3 / 100"

definition ING_SHARE_NORMALIZE_EPS :: real where
  "ING_SHARE_NORMALIZE_EPS = 5"

definition ING_SHARE_MAX_OVER_EPS :: real where
  "ING_SHARE_MAX_OVER_EPS = 5 / 10"

subsection \<open>Rounding\<close>

text \<open>
  The program adds the shares in doubles and compares the sum with a tolerance in four
  places: \<^verbatim>\<open>sumFinal > 1 + PLATE_SHARE_NORMALIZE_EPS\<close> and
  \<^verbatim>\<open>Math.abs(sumFinal - 1) <= PLATE_SHARE_NORMALIZE_EPS\<close> for the plate shares,
  \<^verbatim>\<open>sumPct > 100 + ING_SHARE_MAX_OVER_EPS\<close> and
  \<^verbatim>\<open>Math.abs(sumPct - 100) <= ING_SHARE_NORMALIZE_EPS\<close> for the ingredient shares. When the
  exact sum is equal or very close to the tolerance, the doubles can fall on either side
  of it: for the plate shares 0.47 and 0.50 the program computes
  \<open>|sum - 1| = 0.030000000000000027\<close> and does not rescale, for the ingredient shares
  0.2, 84.4 and 15.9 it computes the sum 100.50000000000001 and throws.

  The model decides such a test only when the two sides are at least \<open>ROUNDING_MARGIN\<close>
  apart. One addition of doubles below 128 is off by at most \<open>2\<^sup>-\<^sup>4\<^sup>7\<close>, so the sum of
  fewer than 100000 shares is off by less than the margin, and outside the margin the
  doubles and the reals decide the test alike. Inside the margin the model makes no
  prediction and returns \<open>RoundingDependent\<close>. The comparisons with 0 (\<^verbatim>\<open>sumProvided <= 0\<close>,
  \<^verbatim>\<open>sumPct <= 0\<close>, \<^verbatim>\<open>compWeightKg <= 0\<close>) are between a sum of non-negative doubles and
  zero, are exact in doubles, and are decided as they stand.

  The test \<^verbatim>\<open>frac < MIN_SHARE_FRAC\<close> of the loop over the rows is between doubles as
  well. For a share as it is stored (two decimals, \<^verbatim>\<open>normFactor\<close> 1) the quotient
  \<^verbatim>\<open>pct / 100\<close> is the double nearest to the exact quotient, and it is below the double
  0.10 exactly when the share is below 10: the test is decided as it stands. For a
  rescaled share the product \<^verbatim>\<open>pctRaw * normFactor\<close> is rounded first: the shares 9.7 and
  87.3 sum to 97 and the first rescales to 10 exactly, but the program computes
  9.999999999999998 and ignores the row. So when the shares are rescaled and the
  fraction of a row that reaches the test is within the margin of the threshold, the
  model makes no prediction either (\<open>thresholdDependent\<close> below).
\<close>

definition ROUNDING_MARGIN :: real where
  "ROUNDING_MARGIN = 1 / 10 ^ 9"

definition roundingDependent :: "real \<Rightarrow> real \<Rightarrow> bool" where
  "roundingDependent x bound = (\<bar>x - bound\<bar> < ROUNDING_MARGIN)"

text \<open>\<^verbatim>\<open>process.env.MAPPING_SOURCE_SYSTEM || "SODEXO"\<close>: unset and empty both give the default.\<close>

definition SOURCE_SYSTEM :: "Env \<Rightarrow> string" where
  "SOURCE_SYSTEM env =
     (case MAPPING_SOURCE_SYSTEM env of
        None \<Rightarrow> ''SODEXO''
      | Some s \<Rightarrow> if s = [] then ''SODEXO'' else s)"

definition clamp :: "real \<Rightarrow> real \<Rightarrow> real \<Rightarrow> real" where
  "clamp n lo hi = max lo (min hi n)"

definition sumNums :: "real list \<Rightarrow> real" where
  "sumNums arr = foldl (\<lambda>acc v. acc + v) 0 arr"

text \<open>
  \<^verbatim>\<open>String.prototype.toLowerCase\<close> on the ASCII letters; every other character is kept.
  No character outside ASCII lower-cases to a single letter of \<open>ignore\<close> or \<open>raw\<close>, so the
  two comparisons the source makes on the result are decided as in JavaScript.
\<close>

definition lowerChar :: "char \<Rightarrow> char" where
  "lowerChar c =
     (case map_of (zip ''ABCDEFGHIJKLMNOPQRSTUVWXYZ'' ''abcdefghijklmnopqrstuvwxyz'') c of
        None \<Rightarrow> c
      | Some l \<Rightarrow> l)"

definition toLowerCase :: "string \<Rightarrow> string" where
  "toLowerCase s = map lowerChar s"

text \<open>\<^verbatim>\<open>(mapping.weight_state || "ignore").toLowerCase()\<close>: \<open>null\<close> and the empty string are falsy.\<close>

definition weightStateOf :: "MappingRow \<Rightarrow> string" where
  "weightStateOf m =
     toLowerCase (case weight_state m of
                    None \<Rightarrow> ''ignore''
                  | Some s \<Rightarrow> if s = [] then ''ignore'' else s)"

text \<open>A query: the client's error, or the rows that satisfy the filters.\<close>

definition select_rows :: "string + 'r list \<Rightarrow> ('r \<Rightarrow> bool) \<Rightarrow> string + 'r list" where
  "select_rows table P = (case table of Inl msg \<Rightarrow> Inl msg | Inr rows \<Rightarrow> Inr (filter P rows))"

text \<open>\<^verbatim>\<open>.single()\<close>: a row only when the query succeeds with exactly one row.\<close>

definition single :: "string + 'r list \<Rightarrow> 'r option" where
  "single q = (case q of Inr [r] \<Rightarrow> Some r | _ \<Rightarrow> None)"

text \<open>\<^verbatim>\<open>Map.set\<close> in a loop keeps the last row of a key; \<^verbatim>\<open>Map.get\<close> reads it.\<close>

definition lastWhere :: "('r \<Rightarrow> bool) \<Rightarrow> 'r list \<Rightarrow> 'r option" where
  "lastWhere P rows = find P (rev rows)"

section \<open>Emission factor resolver\<close>

definition getCo2FactorKgPerKg :: "MappingRow option \<Rightarrow> LukeFoodRow option \<Rightarrow> real option" where
  "getCo2FactorKgPerKg mapping food =
     (case (case mapping of None \<Rightarrow> None | Some m \<Rightarrow> co2_override_per_kg m) of
        Some ov \<Rightarrow> Some ov
      | None \<Rightarrow>
          (case (case food of None \<Rightarrow> None | Some f \<Rightarrow> kg_co2e_per_kg f) of
             Some kg \<Rightarrow> Some kg
           | None \<Rightarrow>
               (case (case food of None \<Rightarrow> None | Some f \<Rightarrow> g_co2e_per_100g f) of
                  Some g \<Rightarrow> Some (g * (1 / 100))
                | None \<Rightarrow> None)))"

text \<open>\<^verbatim>\<open>resolveFactor\<close> of donationBreakdown.ts: the same chain, with the provenance.\<close>

definition resolveFactor :: "MappingRow option \<Rightarrow> LukeFoodRow option \<Rightarrow> string \<times> real option" where
  "resolveFactor mapping food =
     (case (case mapping of None \<Rightarrow> None | Some m \<Rightarrow> co2_override_per_kg m) of
        Some ov \<Rightarrow> (''override'', Some ov)
      | None \<Rightarrow>
          (case (case food of None \<Rightarrow> None | Some f \<Rightarrow> kg_co2e_per_kg f) of
             Some kg \<Rightarrow> (''luke_kg'', Some kg)
           | None \<Rightarrow>
               (case (case food of None \<Rightarrow> None | Some f \<Rightarrow> g_co2e_per_100g f) of
                  Some g \<Rightarrow> (''luke_g100'', Some (g * (1 / 100)))
                | None \<Rightarrow> (''none'', None))))"

section \<open>Component computation\<close>

definition zeroTotals :: Totals where
  "zeroTotals = \<lparr>co2eKg = 0, unmappedKg = 0, mappedKg = 0, ignoredKg = 0\<rparr>"

text \<open>
  \<^verbatim>\<open>normalizeCoreFromName\<close> is a chain of regular-expression replacements on the
  component's name. No property below depends on which string it returns, so the model
  takes it as the parameter \<open>nrm\<close>: every theorem holds for the source's function as for
  any other.
\<close>

text \<open>
  The food of a mapping in the fallback (lines 136 to 153): no query without a food id,
  otherwise the first row with that id.
\<close>

definition queryFoodOf :: "Env \<Rightarrow> MappingRow \<Rightarrow> string + LukeFoodRow option" where
  "queryFoodOf env mapping =
     (case luke_foodid mapping of
        None \<Rightarrow> Inr None
      | Some fid \<Rightarrow>
          (case select_rows (luke_foods env) (\<lambda>f. foodid f = fid) of
             Inl msg \<Rightarrow> Inl msg
           | Inr [] \<Rightarrow> Inr None
           | Inr (f # _) \<Rightarrow> Inr (Some f)))"

text \<open>
  The fallback once the mapping of the component's name is found (lines 131 to 175): the
  whole component is one leaf.
\<close>

definition fallbackFromMapping :: "Env \<Rightarrow> real \<Rightarrow> MappingRow \<Rightarrow> error + Totals" where
  "fallbackFromMapping env componentCookedWeightKg mapping =
     (let weightState = weightStateOf mapping in
        if weightState = ''ignore''
        then Inr (zeroTotals\<lparr>ignoredKg := componentCookedWeightKg\<rparr>)
        else
          (case queryFoodOf env mapping of
             Inl msg \<Rightarrow> Inl (LoadError ''luke_foods (component fallback)'' msg)
           | Inr food \<Rightarrow>
               (case getCo2FactorKgPerKg (Some mapping) food of
                  None \<Rightarrow> Inr (zeroTotals\<lparr>unmappedKg := componentCookedWeightKg\<rparr>)
                | Some factor \<Rightarrow>
                    if weightState = ''raw''
                    then
                      (case yield_cooked_per_raw mapping of
                         None \<Rightarrow> Inr (zeroTotals\<lparr>unmappedKg := componentCookedWeightKg\<rparr>)
                       | Some y \<Rightarrow>
                           if y > 0
                           then Inr \<lparr>co2eKg = componentCookedWeightKg / y * factor,
                                     unmappedKg = 0,
                                     mappedKg = componentCookedWeightKg,
                                     ignoredKg = 0\<rparr>
                           else Inr (zeroTotals\<lparr>unmappedKg := componentCookedWeightKg\<rparr>))
                    else Inr \<lparr>co2eKg = componentCookedWeightKg * factor,
                              unmappedKg = 0,
                              mappedKg = componentCookedWeightKg,
                              ignoredKg = 0\<rparr>)))"

definition computeComponentFallbackCarbonFromName ::
  "(string \<Rightarrow> string) \<Rightarrow> Env \<Rightarrow> int \<Rightarrow> real \<Rightarrow> error + Totals" where
  "computeComponentFallbackCarbonFromName nrm env componentId componentCookedWeightKg =
     (case single (select_rows (dish_components env) (\<lambda>c. c_id c = componentId)) of
        None \<Rightarrow> Inr (zeroTotals\<lparr>unmappedKg := componentCookedWeightKg\<rparr>)
      | Some component \<Rightarrow>
          let core = nrm (case name_raw component of None \<Rightarrow> [] | Some s \<Rightarrow> s) in
          if core = [] \<or> core = ''UNKNOWN''
          then Inr (zeroTotals\<lparr>unmappedKg := componentCookedWeightKg\<rparr>)
          else
            (case select_rows (ingredient_mappings env)
                    (\<lambda>m. source_system m = SOURCE_SYSTEM env \<and> is_active m
                          \<and> m_ingredient_core m = core) of
               Inl msg \<Rightarrow> Inl (LoadError ''ingredient_mappings (component fallback)'' msg)
             | Inr [] \<Rightarrow> Inr (zeroTotals\<lparr>unmappedKg := componentCookedWeightKg\<rparr>)
             | Inr (mapping # _) \<Rightarrow> fallbackFromMapping env componentCookedWeightKg mapping))"

text \<open>The locals of \<^verbatim>\<open>computeComponentCarbon\<close> that the properties speak about.\<close>

definition sharePctByRow :: "IngredientRow list \<Rightarrow> real option list" where
  "sharePctByRow ingredients =
     map (\<lambda>r. case share_of_component r of None \<Rightarrow> None | Some n \<Rightarrow> Some (clamp n 0 100))
         ingredients"

definition hasMissingShare :: "real option list \<Rightarrow> bool" where
  "hasMissingShare shares = (None \<in> set shares)"

definition validShares :: "real option list \<Rightarrow> real list" where
  "validShares shares = map (\<lambda>v. case v of None \<Rightarrow> 0 | Some x \<Rightarrow> x) shares"

definition sumPctOf :: "real option list \<Rightarrow> real" where
  "sumPctOf shares = sumNums (validShares shares)"

text \<open>
  The factor of lines 226 to 231. \<^verbatim>\<open>computeComponentCarbon\<close> below reads it only when the
  test on the sum is outside the rounding margin.
\<close>

definition normFactorOf :: "real option list \<Rightarrow> real" where
  "normFactorOf shares =
     (if \<not> hasMissingShare shares \<and> \<bar>sumPctOf shares - 100\<bar> \<le> ING_SHARE_NORMALIZE_EPS
      then 100 / sumPctOf shares
      else 1)"

text \<open>
  The body of the loop over the ingredient rows (lines 294 to 357): one row and its
  clamped share, added to exactly one accumulator. \<open>mappingByCore\<close> and \<open>foodById\<close> are
  the two lookup maps built before the loop.
\<close>

definition ingredientStep ::
  "real \<Rightarrow> real \<Rightarrow> (string \<Rightarrow> MappingRow option) \<Rightarrow> (int \<Rightarrow> LukeFoodRow option)
   \<Rightarrow> Totals \<Rightarrow> IngredientRow \<times> real option \<Rightarrow> Totals" where
  "ingredientStep componentCookedWeightKg normFactor mappingByCore foodById acc rp =
     (case snd rp of
        None \<Rightarrow> acc
      | Some pctRaw \<Rightarrow>
          let row = fst rp;
              pct = pctRaw * normFactor;
              frac = clamp (pct / 100) 0 1;
              cookedKg = componentCookedWeightKg * frac
          in
            if is_water row \<or> is_salt row then acc\<lparr>ignoredKg := ignoredKg acc + cookedKg\<rparr>
            else if frac < MIN_SHARE_FRAC then acc\<lparr>ignoredKg := ignoredKg acc + cookedKg\<rparr>
            else
              (case mappingByCore (ingredient_core row) of
                 None \<Rightarrow> acc\<lparr>unmappedKg := unmappedKg acc + cookedKg\<rparr>
               | Some mapping \<Rightarrow>
                   let weightState = weightStateOf mapping in
                   if weightState = ''ignore'' then acc\<lparr>ignoredKg := ignoredKg acc + cookedKg\<rparr>
                   else
                     let food = (case luke_foodid mapping of
                                   None \<Rightarrow> None
                                 | Some fid \<Rightarrow> foodById fid)
                     in
                       (case getCo2FactorKgPerKg (Some mapping) food of
                          None \<Rightarrow> acc\<lparr>unmappedKg := unmappedKg acc + cookedKg\<rparr>
                        | Some factor \<Rightarrow>
                            if weightState = ''raw''
                            then
                              (case yield_cooked_per_raw mapping of
                                 None \<Rightarrow> acc\<lparr>unmappedKg := unmappedKg acc + cookedKg\<rparr>
                               | Some y \<Rightarrow>
                                   if y > 0
                                   then acc\<lparr>co2eKg := co2eKg acc + cookedKg / y * factor,
                                            mappedKg := mappedKg acc + cookedKg\<rparr>
                                   else acc\<lparr>unmappedKg := unmappedKg acc + cookedKg\<rparr>)
                            else acc\<lparr>co2eKg := co2eKg acc + cookedKg * factor,
                                     mappedKg := mappedKg acc + cookedKg\<rparr>)))"

text \<open>
  The shares are rescaled and the test \<^verbatim>\<open>frac < MIN_SHARE_FRAC\<close> of some row (one with a
  share that is neither water nor salt) is within the rounding margin.
\<close>

definition thresholdDependent :: "real \<Rightarrow> (IngredientRow \<times> real option) list \<Rightarrow> bool" where
  "thresholdDependent normFactor rowShares =
     (normFactor \<noteq> 1
      \<and> list_ex (\<lambda>rp. case snd rp of
                         None \<Rightarrow> False
                       | Some pctRaw \<Rightarrow>
                           \<not> is_water (fst rp) \<and> \<not> is_salt (fst rp)
                           \<and> roundingDependent (clamp (pctRaw * normFactor / 100) 0 1)
                                 MIN_SHARE_FRAC)
           rowShares)"

definition foodidsOf :: "MappingRow list \<Rightarrow> int list" where
  "foodidsOf mappingsData = remdups (List.map_filter luke_foodid mappingsData)"

text \<open>
  The two queries of \<^verbatim>\<open>computeComponentCarbon\<close> (lines 236 to 243 and 267 to 283) and
  the maps built from their rows. The food table is only queried when a mapping names a
  food.
\<close>

definition queryMappings :: "Env \<Rightarrow> IngredientRow list \<Rightarrow> string + MappingRow list" where
  "queryMappings env ingredients =
     (let cores = remdups (map ingredient_core ingredients) in
        select_rows (ingredient_mappings env)
          (\<lambda>m. source_system m = SOURCE_SYSTEM env \<and> is_active m
                \<and> m_ingredient_core m \<in> set cores))"

definition mappingByCoreOf :: "MappingRow list \<Rightarrow> string \<Rightarrow> MappingRow option" where
  "mappingByCoreOf mappingsData core = lastWhere (\<lambda>m. m_ingredient_core m = core) mappingsData"

definition queryFoods :: "Env \<Rightarrow> MappingRow list \<Rightarrow> string + LukeFoodRow list" where
  "queryFoods env mappingsData =
     (let foodids = foodidsOf mappingsData in
        if foodids = [] then Inr []
        else select_rows (luke_foods env) (\<lambda>f. foodid f \<in> set foodids))"

definition foodByIdOf :: "LukeFoodRow list \<Rightarrow> int \<Rightarrow> LukeFoodRow option" where
  "foodByIdOf foodsData fid = lastWhere (\<lambda>f. foodid f = fid) foodsData"

text \<open>
  The remainder (lines 290 to 292 and 359 to 362): the part of the weight that the shares
  do not cover is added to the unmapped mass when it exceeds \<open>10\<^sup>-\<^sup>9\<close> kg and the
  shares were not rescaled.
\<close>

definition withRemainder :: "real \<Rightarrow> real \<Rightarrow> real \<Rightarrow> Totals \<Rightarrow> Totals" where
  "withRemainder componentCookedWeightKg sumPct normFactor t =
     (let allocatedFrac = clamp (sumPct * normFactor / 100) 0 1;
          unallocatedKg = componentCookedWeightKg * (1 - allocatedFrac)
      in
        if unallocatedKg > 1 / 10 ^ 9 \<and> normFactor = 1
        then t\<lparr>unmappedKg := unmappedKg t + unallocatedKg\<rparr>
        else t)"

definition computeComponentCarbon ::
  "(string \<Rightarrow> string) \<Rightarrow> Env \<Rightarrow> int \<Rightarrow> real \<Rightarrow> error + Totals" where
  "computeComponentCarbon nrm env componentId componentCookedWeightKg =
     (if componentCookedWeightKg \<le> 0 then Inr zeroTotals
      else
        (case select_rows (component_ingredients env) (\<lambda>r. component_id r = componentId) of
           Inl msg \<Rightarrow> Inl (LoadError ''component_ingredients'' msg)
         | Inr ingredients \<Rightarrow>
             if ingredients = []
             then computeComponentFallbackCarbonFromName nrm env componentId componentCookedWeightKg
             else
               let shares = sharePctByRow ingredients;
                   sumPct = sumPctOf shares
               in
                 if sumPct \<le> 0
                 then computeComponentFallbackCarbonFromName nrm env componentId
                        componentCookedWeightKg
                 else if roundingDependent sumPct (100 + ING_SHARE_MAX_OVER_EPS)
                 then Inl (RoundingDependent componentId sumPct)
                 else if sumPct > 100 + ING_SHARE_MAX_OVER_EPS
                 then Inl (IngredientShareSumExceeds componentId sumPct)
                 else if \<not> hasMissingShare shares
                         \<and> roundingDependent \<bar>sumPct - 100\<bar> ING_SHARE_NORMALIZE_EPS
                 then Inl (RoundingDependent componentId sumPct)
                 else
                   let normFactor = normFactorOf shares in
                     if thresholdDependent normFactor (zip ingredients shares)
                     then Inl (RoundingDependent componentId sumPct)
                     else
                       (case queryMappings env ingredients of
                          Inl msg \<Rightarrow> Inl (LoadError ''ingredient_mappings'' msg)
                        | Inr mappingsData \<Rightarrow>
                            let mappingByCore = mappingByCoreOf mappingsData in
                              (case queryFoods env mappingsData of
                                 Inl msg \<Rightarrow> Inl (LoadError ''luke_foods'' msg)
                               | Inr foodsData \<Rightarrow>
                                   let foodById = foodByIdOf foodsData;
                                       t = foldl (ingredientStep componentCookedWeightKg
                                                    normFactor mappingByCore foodById)
                                             zeroTotals (zip ingredients shares)
                                   in Inr (withRemainder componentCookedWeightKg sumPct
                                             normFactor t)))))"

section \<open>Plate shares of a dish\<close>

definition providedShares :: "DishComponentRow list \<Rightarrow> real option list" where
  "providedShares comps =
     map (\<lambda>c. case plate_share c of None \<Rightarrow> None | Some n \<Rightarrow> Some (clamp n 0 1)) comps"

definition sumProvidedOf :: "real option list \<Rightarrow> real" where
  "sumProvidedOf provided =
     foldl (\<lambda>acc v. acc + (case v of None \<Rightarrow> 0 | Some x \<Rightarrow> x)) 0 provided"

text \<open>
  The shares once the missing entries have received their part of the remainder: the
  array \<open>shares\<close> after the loop \<^verbatim>\<open>for (const i of missingIdx) shares[i] += add\<close>.
\<close>

definition filledShares :: "real option list \<Rightarrow> real list" where
  "filledShares provided =
     (let shares = map (\<lambda>v. case v of None \<Rightarrow> 0 | Some x \<Rightarrow> x) provided;
          missingIdx = filter (\<lambda>i. provided ! i = None) [0 ..< length provided];
          sumNow = sumNums shares;
          remainder = 1 - sumNow
      in
        if missingIdx \<noteq> [] \<and> remainder > 0
        then foldl (\<lambda>sh i. sh[i := sh ! i + remainder / real (length missingIdx)])
               shares missingIdx
        else shares)"

text \<open>
  Lines 410 to 455 of \<^verbatim>\<open>computeDonationCarbon\<close>: the share of every component of the dish.
  The two tests on \<open>sumFinal\<close> are decided outside the rounding margin only.
\<close>

definition plateShares :: "int \<Rightarrow> DishComponentRow list \<Rightarrow> error + real list" where
  "plateShares dish_id comps =
     (let provided = providedShares comps;
          sumProvided = sumProvidedOf provided
      in
        if sumProvided \<le> 0
        then Inr (map (\<lambda>_. 1 / real (length comps)) comps)
        else
          let shares = filledShares provided;
              sumFinal = sumNums shares
          in
            if roundingDependent sumFinal (1 + PLATE_SHARE_NORMALIZE_EPS)
            then Inl (RoundingDependent dish_id sumFinal)
            else if sumFinal > 1 + PLATE_SHARE_NORMALIZE_EPS
            then Inl (PlateShareSumExceeds dish_id sumFinal)
            else if sumFinal > 0 \<and> roundingDependent \<bar>sumFinal - 1\<bar> PLATE_SHARE_NORMALIZE_EPS
            then Inl (RoundingDependent dish_id sumFinal)
            else if sumFinal > 0 \<and> \<bar>sumFinal - 1\<bar> \<le> PLATE_SHARE_NORMALIZE_EPS
            then Inr (map (\<lambda>s. s / sumFinal) shares)
            else Inr shares)"

text \<open>
  \<^verbatim>\<open>normalizeComponentShares\<close> of donationBuckets.ts: it rescales an overweight sum and
  never throws. It returns a plain list, so its test on \<open>sumFinal\<close> stands as written, in
  exact arithmetic; the development uses the function only where \<open>sumProvided \<le> 0\<close>.
\<close>

definition normalizeComponentShares :: "DishComponentRow list \<Rightarrow> real list" where
  "normalizeComponentShares components =
     (let provided = providedShares components;
          sumProvided = sumProvidedOf provided
      in
        if sumProvided \<le> 0
        then map (\<lambda>_. 1 / real (length components)) components
        else
          let shares = filledShares provided;
              sumFinal = sumNums shares
          in
            if sumFinal > 0 \<and> \<bar>sumFinal - 1\<bar> \<le> PLATE_SHARE_NORMALIZE_EPS
            then map (\<lambda>s. s / sumFinal) shares
            else if sumFinal > 1
            then map (\<lambda>s. s / sumFinal) shares
            else shares)"

section \<open>Donation computation\<close>

definition addTotals :: "Totals \<Rightarrow> Totals \<Rightarrow> Totals" where
  "addTotals acc r =
     \<lparr>co2eKg = co2eKg acc + co2eKg r,
      unmappedKg = unmappedKg acc + unmappedKg r,
      mappedKg = mappedKg acc + mappedKg r,
      ignoredKg = ignoredKg acc + ignoredKg r\<rparr>"

text \<open>
  The loop over the components of a dish (lines 457 to 466): a component whose weight is
  not positive is skipped, an error of a component ends the computation.
\<close>

fun dishLoop ::
  "(string \<Rightarrow> string) \<Rightarrow> Env \<Rightarrow> real \<Rightarrow> Totals \<Rightarrow> (DishComponentRow \<times> real) list
   \<Rightarrow> error + Totals" where
  "dishLoop nrm env donated acc [] = Inr acc"
| "dishLoop nrm env donated acc (cs # rest) =
     (let compWeightKg = donated * snd cs in
        if compWeightKg \<le> 0 then dishLoop nrm env donated acc rest
        else
          (case computeComponentCarbon nrm env (c_id (fst cs)) compWeightKg of
             Inl e \<Rightarrow> Inl e
           | Inr r \<Rightarrow> dishLoop nrm env donated (addTotals acc r) rest))"

definition donationResult :: "Env \<Rightarrow> DonationRow \<Rightarrow> real \<Rightarrow> Totals \<Rightarrow> DonationCarbonResult" where
  "donationResult env donation w t =
     \<lparr>r_donation_id = d_id donation,
      r_dish_id = d_dish_id donation,
      r_component_id = d_component_id donation,
      r_donated_weight_kg = w,
      total_co2e_kg = co2eKg t,
      total_food_mass_kg = w,
      unmapped_mass_kg = unmappedKg t,
      co2_per_kg = (if w > 0 then co2eKg t / w else 0),
      mapped_mass_kg = mappedKg t,
      ignored_mass_kg = ignoredKg t,
      mapping_source_system = SOURCE_SYSTEM env\<rparr>"

text \<open>
  \<^verbatim>\<open>computeDonationCarbon\<close>. The upsert of the \<^verbatim>\<open>donation_metrics\<close> row writes three
  fields of the result and its failure is only logged, so it does not appear in the value.
\<close>

definition computeDonationCarbon ::
  "(string \<Rightarrow> string) \<Rightarrow> Env \<Rightarrow> int \<Rightarrow> error + DonationCarbonResult" where
  "computeDonationCarbon nrm env donationId =
     (case single (select_rows (donations env) (\<lambda>d. d_id d = donationId)) of
        None \<Rightarrow> Inl (DonationNotFound donationId)
      | Some donation \<Rightarrow>
          (case donated_weight_kg donation of
             None \<Rightarrow> Inl (InvalidDonatedWeight donationId)
           | Some w \<Rightarrow>
               if w \<le> 0 then Inl (InvalidDonatedWeight donationId)
               else
                 (case d_component_id donation of
                    Some cid \<Rightarrow>
                      (case computeComponentCarbon nrm env cid w of
                         Inl e \<Rightarrow> Inl e
                       | Inr r \<Rightarrow> Inr (donationResult env donation w (addTotals zeroTotals r)))
                  | None \<Rightarrow>
                      (case d_dish_id donation of
                         None \<Rightarrow> Inl (NeitherDishNorComponent donationId)
                       | Some did \<Rightarrow>
                           (case select_rows (dish_components env) (\<lambda>c. c_dish_id c = did) of
                              Inl msg \<Rightarrow> Inl (LoadError ''dish_components'' msg)
                            | Inr comps \<Rightarrow>
                                if comps = []
                                then Inr (donationResult env donation w
                                            (zeroTotals\<lparr>unmappedKg := w\<rparr>))
                                else
                                  (case plateShares did comps of
                                     Inl e \<Rightarrow> Inl e
                                   | Inr shares \<Rightarrow>
                                       (case dishLoop nrm env w zeroTotals (zip comps shares) of
                                          Inl e \<Rightarrow> Inl e
                                        | Inr t \<Rightarrow> Inr (donationResult env donation w t))))))))"


section \<open>The breakdown of a donation\<close>

text \<open>
  \<^verbatim>\<open>computeDonationBreakdown\<close> of donationBreakdown.ts computes the same totals as
  \<^verbatim>\<open>computeDonationCarbon\<close> together with one item for every leaf. It loads the
  ingredient rows, the mappings and the foods of all components at once, sorts the rows of
  a component by \<open>seq_no\<close>, and has no test on the weight of a component.

  Left out of the model: the \<open>restaurant\<close> header of the result (two queries whose errors
  are swallowed, and the formatting of a label) and the fields \<open>luke_name_fi\<close> and
  \<open>luke_name_en\<close> of an item, which copy two columns of the food that no computation
  reads.
\<close>

datatype BreakdownStatus = Mapped | Unmapped | Ignored

record BreakdownItem =
  status :: BreakdownStatus
  reason :: string
  item_component_id :: int
  component_name :: string
  item_component_type :: "string option"
  component_weight_kg :: real
  item_ingredient_core :: string
  item_base_name :: string
  share_pct :: "real option"
  cooked_mass_kg :: real
  item_luke_foodid :: "int option"
  factor_source :: string
  factor_kgco2_per_kg :: "real option"
  mass_for_factor_kg :: real
  co2e_kg :: real

record BreakdownTotals =
  bt_total_food_mass_kg :: real
  bt_total_co2e_kg :: real
  bt_co2_per_kg :: real
  bt_mapped_mass_kg :: real
  bt_ignored_mass_kg :: real
  bt_unmapped_mass_kg :: real

record DonationBreakdown =
  b_donation :: DonationRow
  b_dish :: "DishRow option"
  b_mapping_source_system :: string
  totals :: BreakdownTotals
  items :: "BreakdownItem list"

text \<open>The list \<open>items\<close> and the four accumulators of the loops.\<close>

record BreakdownState =
  st_items :: "BreakdownItem list"
  totalCo2 :: real
  mappedMass :: real
  ignoredMass :: real
  unmappedMass :: real

text \<open>
  \<^verbatim>\<open>String.prototype.trim\<close> on ASCII strings: the white space and line terminators below
  128 are tab, line feed, vertical tab, form feed, carriage return and space.
\<close>

definition isSpace :: "char \<Rightarrow> bool" where
  "isSpace c = (c \<in> set [CHR 0x09, CHR 0x0A, CHR 0x0B, CHR 0x0C, CHR 0x0D, CHR 0x20])"

definition trim :: "string \<Rightarrow> string" where
  "trim s = rev (dropWhile isSpace (rev (dropWhile isSpace s)))"

text \<open>The decimal digits of an integer, as a template literal prints a whole number.\<close>

function showNat :: "nat \<Rightarrow> string" where
  "showNat n =
     (if n < 10 then [''0123456789'' ! n]
      else showNat (n div 10) @ [''0123456789'' ! (n mod 10)])"
  by pat_completeness auto
termination
  by (relation "measure id") auto

declare showNat.simps [simp del]

definition showInt :: "int \<Rightarrow> string" where
  "showInt i = (if i < 0 then CHR ''-'' # showNat (nat (- i)) else showNat (nat i))"

text \<open>\<^verbatim>\<open>.maybeSingle()\<close>: an error when more than one row matches, no row when none does.\<close>

definition maybeSingle :: "string + 'r list \<Rightarrow> string + 'r option" where
  "maybeSingle q =
     (case q of
        Inl msg \<Rightarrow> Inl msg
      | Inr [] \<Rightarrow> Inr None
      | Inr [r] \<Rightarrow> Inr (Some r)
      | Inr (r # r' # _) \<Rightarrow> Inl ''multiple rows returned'')"

text \<open>
  The names an item shows (lines 459 and 661): the trimmed name, or a stand-in when it is
  empty.
\<close>

definition componentNameOf :: "DishComponentRow \<Rightarrow> string" where
  "componentNameOf component =
     (let t = trim (case name_raw component of None \<Rightarrow> [] | Some s \<Rightarrow> s)
      in if t = [] then ''component#'' @ showInt (c_id component) else t)"

definition baseNameOf :: "IngredientRow \<Rightarrow> string" where
  "baseNameOf ing =
     (let t = trim (case base_name ing of None \<Rightarrow> [] | Some s \<Rightarrow> s)
      in if t = [] then ingredient_core ing else t)"

text \<open>The rows of a component among the loaded rows, sorted by \<open>seq_no\<close> (lines 463 to 465).\<close>

definition compIngsOf :: "IngredientRow list \<Rightarrow> int \<Rightarrow> IngredientRow list" where
  "compIngsOf allIngs componentId =
     sort_key (\<lambda>r. case seq_no r of None \<Rightarrow> 9999 | Some n \<Rightarrow> n)
       (filter (\<lambda>r. component_id r = componentId) allIngs)"

text \<open>\<^verbatim>\<open>loadDish\<close> for the dish of the donation, when it has one.\<close>

definition loadDishOf :: "Env \<Rightarrow> DonationRow \<Rightarrow> string + DishRow option" where
  "loadDishOf env donation =
     (case d_dish_id donation of
        None \<Rightarrow> Inr None
      | Some did \<Rightarrow> maybeSingle (select_rows (dishes env) (\<lambda>d. dish_row_id d = did)))"

definition newItem ::
  "int \<Rightarrow> string \<Rightarrow> string option \<Rightarrow> real \<Rightarrow> BreakdownStatus \<Rightarrow> string \<Rightarrow> string \<Rightarrow> string
   \<Rightarrow> real option \<Rightarrow> real \<Rightarrow> int option \<Rightarrow> string \<Rightarrow> real option \<Rightarrow> real \<Rightarrow> real
   \<Rightarrow> BreakdownItem" where
  "newItem componentId componentName componentType componentWeightKg
           st rs core baseName pct cookedKg fid fsource fvalue massForFactorKg co2 =
     \<lparr>status = st, reason = rs,
      item_component_id = componentId, component_name = componentName,
      item_component_type = componentType, component_weight_kg = componentWeightKg,
      item_ingredient_core = core, item_base_name = baseName,
      share_pct = pct, cooked_mass_kg = cookedKg,
      item_luke_foodid = fid,
      factor_source = fsource, factor_kgco2_per_kg = fvalue,
      mass_for_factor_kg = massForFactorKg, co2e_kg = co2\<rparr>"

definition pushItem :: "BreakdownState \<Rightarrow> BreakdownItem \<Rightarrow> BreakdownState" where
  "pushItem st it = st\<lparr>st_items := st_items st @ [it]\<rparr>"

text \<open>
  The body of the loop over the sorted rows of a component (lines 657 to 897): one item
  for the row, and its cooked mass added to one accumulator.
\<close>

definition breakdownRow ::
  "int \<Rightarrow> string \<Rightarrow> string option \<Rightarrow> real \<Rightarrow> real \<Rightarrow> (string \<Rightarrow> MappingRow option)
   \<Rightarrow> (int \<Rightarrow> LukeFoodRow option) \<Rightarrow> BreakdownState \<Rightarrow> IngredientRow \<times> real option
   \<Rightarrow> BreakdownState" where
  "breakdownRow componentId componentName componentType componentWeightKg normFactor
                mappings lukeFoods st rp =
     (let ing = fst rp;
          baseName = baseNameOf ing;
          item = newItem componentId componentName componentType componentWeightKg
      in
        case snd rp of
          None \<Rightarrow>
            pushItem st
              (item Unmapped
                 ''missing share_of_component (mass accounted in unallocated remainder if any)''
                 (ingredient_core ing) baseName None 0 None ''none'' None 0 0)
        | Some pctRaw \<Rightarrow>
            let pct = pctRaw * normFactor;
                frac = clamp (pct / 100) 0 1;
                cookedKg = componentWeightKg * frac
            in
              if is_water ing
              then pushItem (st\<lparr>ignoredMass := ignoredMass st + cookedKg\<rparr>)
                     (item Ignored ''water'' (ingredient_core ing) baseName (Some pct) cookedKg
                        None ''none'' None 0 0)
              else if is_salt ing
              then pushItem (st\<lparr>ignoredMass := ignoredMass st + cookedKg\<rparr>)
                     (item Ignored ''salt'' (ingredient_core ing) baseName (Some pct) cookedKg
                        None ''none'' None 0 0)
              else if frac < MIN_SHARE_FRAC
              then pushItem (st\<lparr>ignoredMass := ignoredMass st + cookedKg\<rparr>)
                     (item Ignored
                        (''below '' @ showInt (round (MIN_SHARE_FRAC * 100)) @ ''% threshold'')
                        (ingredient_core ing) baseName (Some pct) cookedKg
                        None ''none'' None 0 0)
              else
                (case mappings (ingredient_core ing) of
                   None \<Rightarrow>
                     pushItem (st\<lparr>unmappedMass := unmappedMass st + cookedKg\<rparr>)
                       (item Unmapped ''no ingredient_mappings row'' (ingredient_core ing) baseName
                          (Some pct) cookedKg None ''none'' None 0 0)
                 | Some mapping \<Rightarrow>
                     let weightState = weightStateOf mapping in
                     if weightState = ''ignore''
                     then pushItem (st\<lparr>ignoredMass := ignoredMass st + cookedKg\<rparr>)
                            (item Ignored ''mapping weight_state=ignore'' (ingredient_core ing)
                               baseName (Some pct) cookedKg (luke_foodid mapping) ''none'' None 0 0)
                     else
                       let food = (case luke_foodid mapping of
                                     None \<Rightarrow> None
                                   | Some fid \<Rightarrow> lukeFoods fid);
                           factor = resolveFactor (Some mapping) food
                       in
                         (case snd factor of
                            None \<Rightarrow>
                              pushItem (st\<lparr>unmappedMass := unmappedMass st + cookedKg\<rparr>)
                                (item Unmapped
                                   ''no CO2 factor (no override and LUKE factor missing)''
                                   (ingredient_core ing) baseName (Some pct) cookedKg
                                   (luke_foodid mapping) ''none'' None 0 0)
                          | Some value \<Rightarrow>
                              let mapped = (\<lambda>massForFactorKg.
                                    pushItem (st\<lparr>mappedMass := mappedMass st + cookedKg,
                                                 totalCo2 := totalCo2 st + massForFactorKg * value\<rparr>)
                                      (item Mapped ''ok'' (ingredient_core ing) baseName (Some pct)
                                         cookedKg (luke_foodid mapping) (fst factor) (Some value)
                                         massForFactorKg (massForFactorKg * value)));
                                  noYield =
                                    pushItem (st\<lparr>unmappedMass := unmappedMass st + cookedKg\<rparr>)
                                      (item Unmapped
                                         ''weight_state=raw but yield_cooked_per_raw missing/invalid''
                                         (ingredient_core ing) baseName (Some pct) cookedKg
                                         (luke_foodid mapping) (fst factor) (Some value) 0 0)
                              in
                                if weightState = ''raw''
                                then
                                  (case yield_cooked_per_raw mapping of
                                     None \<Rightarrow> noYield
                                   | Some y \<Rightarrow> if y > 0 then mapped (cookedKg / y) else noYield)
                                else mapped cookedKg)))"

text \<open>
  The branch of a component without ingredient rows (lines 470 to 594): the whole
  component is one leaf, mapped by the normalised name of the component.
\<close>

definition breakdownFallback ::
  "(string \<Rightarrow> string) \<Rightarrow> int \<Rightarrow> string \<Rightarrow> string option \<Rightarrow> real
   \<Rightarrow> (string \<Rightarrow> MappingRow option) \<Rightarrow> (int \<Rightarrow> LukeFoodRow option) \<Rightarrow> BreakdownState
   \<Rightarrow> BreakdownState" where
  "breakdownFallback nrm componentId componentName componentType componentWeightKg
                     mappings lukeFoods st =
     (let componentCore = nrm componentName;
          item = newItem componentId componentName componentType componentWeightKg
      in
        case (if componentCore = [] then None else mappings componentCore) of
          None \<Rightarrow>
            pushItem (st\<lparr>unmappedMass := unmappedMass st + componentWeightKg\<rparr>)
              (item Unmapped ''no component_ingredients rows; no component-name mapping''
                 (if componentCore = [] then ''UNKNOWN'' else componentCore) componentName
                 None componentWeightKg None ''none'' None 0 0)
        | Some mapping \<Rightarrow>
            let weightState = weightStateOf mapping in
            if weightState = ''ignore''
            then pushItem (st\<lparr>ignoredMass := ignoredMass st + componentWeightKg\<rparr>)
                   (item Ignored ''component-level fallback; mapping weight_state=ignore''
                      componentCore componentName None componentWeightKg (luke_foodid mapping)
                      ''none'' None 0 0)
            else
              let food = (case luke_foodid mapping of None \<Rightarrow> None | Some fid \<Rightarrow> lukeFoods fid);
                  factor = resolveFactor (Some mapping) food
              in
                (case snd factor of
                   None \<Rightarrow>
                     pushItem (st\<lparr>unmappedMass := unmappedMass st + componentWeightKg\<rparr>)
                       (item Unmapped ''component-level fallback; no CO2 factor''
                          componentCore componentName None componentWeightKg (luke_foodid mapping)
                          ''none'' None 0 0)
                 | Some value \<Rightarrow>
                     let mapped = (\<lambda>massForFactorKg.
                           pushItem (st\<lparr>mappedMass := mappedMass st + componentWeightKg,
                                        totalCo2 := totalCo2 st + massForFactorKg * value\<rparr>)
                             (item Mapped ''component-level fallback (no ingredient breakdown)''
                                componentCore componentName None componentWeightKg
                                (luke_foodid mapping) (fst factor) (Some value)
                                massForFactorKg (massForFactorKg * value)));
                         noYield =
                           pushItem (st\<lparr>unmappedMass := unmappedMass st + componentWeightKg\<rparr>)
                             (item Unmapped
                                ''component-level fallback; weight_state=raw but yield missing/invalid''
                                componentCore componentName None componentWeightKg
                                (luke_foodid mapping) (fst factor) (Some value) 0 0)
                     in
                       if weightState = ''raw''
                       then
                         (case yield_cooked_per_raw mapping of
                            None \<Rightarrow> noYield
                          | Some y \<Rightarrow> if y > 0 then mapped (componentWeightKg / y) else noYield)
                       else mapped componentWeightKg))"

text \<open>
  The remainder of a component after the loop over its rows (lines 655, 656 and 899 to
  920): the uncovered weight, when the shares were not rescaled and it exceeds
  \<open>10\<^sup>-\<^sup>9\<close> kg, is unmapped and gets an item of its own.
\<close>

definition breakdownRemainder ::
  "int \<Rightarrow> string \<Rightarrow> string option \<Rightarrow> real \<Rightarrow> real \<Rightarrow> real \<Rightarrow> BreakdownState
   \<Rightarrow> BreakdownState" where
  "breakdownRemainder componentId componentName componentType componentWeightKg sumPct
                      normFactor st =
     (let allocatedFrac = clamp (sumPct * normFactor / 100) 0 1;
          unallocatedKg = (if normFactor = 1
                           then componentWeightKg * (1 - allocatedFrac)
                           else 0)
      in
        if unallocatedKg > 1 / 10 ^ 9
        then pushItem (st\<lparr>unmappedMass := unmappedMass st + unallocatedKg\<rparr>)
               (newItem componentId componentName componentType componentWeightKg
                  Unmapped ''unallocated remainder (shares < 100)''
                  ''UNALLOCATED_REMAINDER'' ''UNALLOCATED_REMAINDER'' None
                  unallocatedKg None ''none'' None 0 0)
        else st)"

text \<open>
  One round of the loop over the allocations (lines 457 to 921). The two tests on the
  sum of the shares and the threshold test on rescaled shares are decided outside the
  rounding margin only, as in \<^verbatim>\<open>computeComponentCarbon\<close>.
\<close>

definition breakdownComponent ::
  "(string \<Rightarrow> string) \<Rightarrow> IngredientRow list \<Rightarrow> (string \<Rightarrow> MappingRow option)
   \<Rightarrow> (int \<Rightarrow> LukeFoodRow option) \<Rightarrow> BreakdownState \<Rightarrow> DishComponentRow \<times> real
   \<Rightarrow> error + BreakdownState" where
  "breakdownComponent nrm allIngs mappings lukeFoods st alloc =
     (let componentId = c_id (fst alloc);
          componentName = componentNameOf (fst alloc);
          componentType = component_type (fst alloc);
          componentWeightKg = snd alloc;
          compIngs = compIngsOf allIngs componentId
      in
        if compIngs = []
        then Inr (breakdownFallback nrm componentId componentName componentType
                    componentWeightKg mappings lukeFoods st)
        else
          let shares = sharePctByRow compIngs;
              sumPct = sumPctOf shares
          in
            if sumPct \<le> 0
            then Inr (pushItem (st\<lparr>unmappedMass := unmappedMass st + componentWeightKg\<rparr>)
                        (newItem componentId componentName componentType componentWeightKg
                           Unmapped ''share_of_component missing for all rows''
                           ''NO_SHARES_PROVIDED'' ''NO_SHARES_PROVIDED'' None componentWeightKg
                           None ''none'' None 0 0))
            else if roundingDependent sumPct (100 + ING_SHARE_MAX_OVER_EPS)
            then Inl (RoundingDependent componentId sumPct)
            else if sumPct > 100 + ING_SHARE_MAX_OVER_EPS
            then Inl (IngredientShareSumExceeds componentId sumPct)
            else if \<not> hasMissingShare shares
                    \<and> roundingDependent \<bar>sumPct - 100\<bar> ING_SHARE_NORMALIZE_EPS
            then Inl (RoundingDependent componentId sumPct)
            else
              let normFactor = normFactorOf shares in
                if thresholdDependent normFactor (zip compIngs shares)
                then Inl (RoundingDependent componentId sumPct)
                else
                  Inr (breakdownRemainder componentId componentName componentType
                         componentWeightKg sumPct normFactor
                         (foldl (breakdownRow componentId componentName componentType
                                   componentWeightKg normFactor mappings lukeFoods)
                            st (zip compIngs shares))))"

fun breakdownLoop ::
  "(string \<Rightarrow> string) \<Rightarrow> IngredientRow list \<Rightarrow> (string \<Rightarrow> MappingRow option)
   \<Rightarrow> (int \<Rightarrow> LukeFoodRow option) \<Rightarrow> BreakdownState \<Rightarrow> (DishComponentRow \<times> real) list
   \<Rightarrow> error + BreakdownState" where
  "breakdownLoop nrm allIngs mappings lukeFoods st [] = Inr st"
| "breakdownLoop nrm allIngs mappings lukeFoods st (alloc # rest) =
     (case breakdownComponent nrm allIngs mappings lukeFoods st alloc of
        Inl e \<Rightarrow> Inl e
      | Inr st' \<Rightarrow> breakdownLoop nrm allIngs mappings lukeFoods st' rest)"

text \<open>
  The allocations (lines 357 to 427): the component of the donation on the whole weight,
  with a stand-in row when the component is not in the database, or the components of the
  dish in the order of their ids, on the weight times their plate shares. \<open>None\<close> is the
  dish without components.
\<close>

definition allocationsOf ::
  "Env \<Rightarrow> int \<Rightarrow> DonationRow \<Rightarrow> real \<Rightarrow> error + (DishComponentRow \<times> real) list option" where
  "allocationsOf env donationId donation donatedWeightKg =
     (case d_component_id donation of
        Some cid \<Rightarrow>
          (case maybeSingle (select_rows (dish_components env) (\<lambda>c. c_id c = cid)) of
             Inl msg \<Rightarrow> Inl (LoadError ''dish_component'' msg)
           | Inr (Some component) \<Rightarrow> Inr (Some [(component, donatedWeightKg)])
           | Inr None \<Rightarrow>
               Inr (Some [(\<lparr>c_id = cid,
                             c_dish_id = (case d_dish_id donation of None \<Rightarrow> - 1 | Some d \<Rightarrow> d),
                             name_raw = Some ''(missing dish_components row)'',
                             plate_share = None,
                             component_type = None\<rparr>, donatedWeightKg)]))
      | None \<Rightarrow>
          (case d_dish_id donation of
             None \<Rightarrow> Inl (NeitherDishNorComponent donationId)
           | Some did \<Rightarrow>
               (case select_rows (dish_components env) (\<lambda>c. c_dish_id c = did) of
                  Inl msg \<Rightarrow> Inl (LoadError ''dish_components'' msg)
                | Inr rows \<Rightarrow>
                    let comps = sort_key c_id rows in
                    if comps = [] then Inr None
                    else
                      (case plateShares (c_dish_id (hd comps)) comps of
                         Inl e \<Rightarrow> Inl e
                       | Inr shares \<Rightarrow>
                           Inr (Some (map (\<lambda>cs. (fst cs, donatedWeightKg * snd cs))
                                        (zip comps shares)))))))"

text \<open>
  The three loads after the allocations (lines 429 to 453): the ingredient rows of all
  components, the mappings of their cores and of the names of the components without
  rows, and the foods of the mappings that the map keeps (the last row of a core).
\<close>

definition breakdownCores ::
  "(string \<Rightarrow> string) \<Rightarrow> IngredientRow list \<Rightarrow> (DishComponentRow \<times> real) list \<Rightarrow> string list" where
  "breakdownCores nrm allIngs allocations =
     remdups (map ingredient_core allIngs
              @ List.map_filter
                  (\<lambda>alloc.
                     if c_id (fst alloc) \<in> set (map component_id allIngs) then None
                     else
                       let core = nrm (case name_raw (fst alloc) of None \<Rightarrow> [] | Some s \<Rightarrow> s)
                       in if core \<noteq> [] \<and> core \<noteq> ''UNKNOWN'' then Some core else None)
                  allocations)"

definition loadMappings :: "Env \<Rightarrow> string list \<Rightarrow> string + MappingRow list" where
  "loadMappings env cores =
     (if cores = [] then Inr []
      else select_rows (ingredient_mappings env)
             (\<lambda>m. source_system m = SOURCE_SYSTEM env \<and> is_active m
                   \<and> m_ingredient_core m \<in> set cores))"

definition keptFoodids :: "MappingRow list \<Rightarrow> int list" where
  "keptFoodids mappingsData =
     remdups (List.map_filter luke_foodid
                (List.map_filter (mappingByCoreOf mappingsData)
                   (remdups (map m_ingredient_core mappingsData))))"

definition loadLukeFoods :: "Env \<Rightarrow> int list \<Rightarrow> string + LukeFoodRow list" where
  "loadLukeFoods env foodids =
     (if foodids = [] then Inr []
      else select_rows (luke_foods env) (\<lambda>f. foodid f \<in> set foodids))"

definition emptyState :: BreakdownState where
  "emptyState = \<lparr>st_items = [], totalCo2 = 0, mappedMass = 0, ignoredMass = 0,
                 unmappedMass = 0\<rparr>"

text \<open>The value returned after the loop (lines 923 to 937).\<close>

definition breakdownResult ::
  "Env \<Rightarrow> DonationRow \<Rightarrow> DishRow option \<Rightarrow> real \<Rightarrow> BreakdownState \<Rightarrow> DonationBreakdown" where
  "breakdownResult env donation dish donatedWeightKg st =
     \<lparr>b_donation = donation, b_dish = dish,
      b_mapping_source_system = SOURCE_SYSTEM env,
      totals = \<lparr>bt_total_food_mass_kg = donatedWeightKg,
                bt_total_co2e_kg = totalCo2 st,
                bt_co2_per_kg = (if donatedWeightKg > 0 then totalCo2 st / donatedWeightKg else 0),
                bt_mapped_mass_kg = mappedMass st,
                bt_ignored_mass_kg = ignoredMass st,
                bt_unmapped_mass_kg = unmappedMass st\<rparr>,
      items = st_items st\<rparr>"

definition computeDonationBreakdown ::
  "(string \<Rightarrow> string) \<Rightarrow> Env \<Rightarrow> int \<Rightarrow> error + DonationBreakdown" where
  "computeDonationBreakdown nrm env donationId =
     (case single (select_rows (donations env) (\<lambda>d. d_id d = donationId)) of
        None \<Rightarrow> Inl (DonationNotFound donationId)
      | Some donation \<Rightarrow>
          (case donated_weight_kg donation of
             None \<Rightarrow> Inl (InvalidDonatedWeight donationId)
           | Some donatedWeightKg \<Rightarrow>
               if donatedWeightKg \<le> 0 then Inl (InvalidDonatedWeight donationId)
               else
                 (case loadDishOf env donation of
                    Inl msg \<Rightarrow> Inl (LoadError ''dish'' msg)
                  | Inr dish \<Rightarrow>
                      (case allocationsOf env donationId donation donatedWeightKg of
                         Inl e \<Rightarrow> Inl e
                       | Inr None \<Rightarrow>
                           Inr \<lparr>b_donation = donation, b_dish = dish,
                                b_mapping_source_system = SOURCE_SYSTEM env,
                                totals = \<lparr>bt_total_food_mass_kg = donatedWeightKg,
                                          bt_total_co2e_kg = 0, bt_co2_per_kg = 0,
                                          bt_mapped_mass_kg = 0, bt_ignored_mass_kg = 0,
                                          bt_unmapped_mass_kg = donatedWeightKg\<rparr>,
                                items = [newItem (- 1) ''NO_COMPONENTS'' None donatedWeightKg
                                           Unmapped ''dish has no dish_components rows''
                                           ''NO_COMPONENTS'' ''NO_COMPONENTS'' None
                                           donatedWeightKg None ''none'' None 0 0]\<rparr>
                       | Inr (Some allocations) \<Rightarrow>
                           (case select_rows (component_ingredients env)
                                   (\<lambda>r. component_id r \<in> set (map (\<lambda>a. c_id (fst a)) allocations)) of
                              Inl msg \<Rightarrow> Inl (LoadError ''component_ingredients'' msg)
                            | Inr allIngs \<Rightarrow>
                                (case loadMappings env (breakdownCores nrm allIngs allocations) of
                                   Inl msg \<Rightarrow> Inl (LoadError ''ingredient_mappings'' msg)
                                 | Inr mappingsData \<Rightarrow>
                                     (case loadLukeFoods env (keptFoodids mappingsData) of
                                        Inl msg \<Rightarrow> Inl (LoadError ''luke_foods'' msg)
                                      | Inr foodsData \<Rightarrow>
                                          (case breakdownLoop nrm allIngs
                                                  (mappingByCoreOf mappingsData)
                                                  (foodByIdOf foodsData) emptyState allocations of
                                             Inl e \<Rightarrow> Inl e
                                           | Inr st \<Rightarrow>
                                               Inr (breakdownResult env donation dish
                                                      donatedWeightKg st)))))))))"

section \<open>Derived notions used to state the properties\<close>

text \<open>The mass a component computation has put into the three buckets.\<close>

definition massOf :: "Totals \<Rightarrow> real" where
  "massOf t = mappedKg t + unmappedKg t + ignoredKg t"

definition accountedMass :: "DonationCarbonResult \<Rightarrow> real" where
  "accountedMass r = mapped_mass_kg r + unmapped_mass_kg r + ignored_mass_kg r"

text \<open>The fraction \<open>frac\<close> the loop body computes for a row: nothing for a missing share.\<close>

definition leafFrac :: "real \<Rightarrow> real option \<Rightarrow> real" where
  "leafFrac normFactor sp =
     (case sp of None \<Rightarrow> 0 | Some pctRaw \<Rightarrow> clamp (pctRaw * normFactor / 100) 0 1)"

text \<open>The clamped shares of the ingredient rows a component has in the database.\<close>

definition componentShares :: "Env \<Rightarrow> int \<Rightarrow> real option list" where
  "componentShares env componentId =
     (case select_rows (component_ingredients env) (\<lambda>r. component_id r = componentId) of
        Inl _ \<Rightarrow> []
      | Inr rows \<Rightarrow> sharePctByRow rows)"

text \<open>
  A component whose rows leave a share missing while the known shares already sum to more
  than 100: the rows are neither rescaled nor rejected.
\<close>

definition overAllocated :: "Env \<Rightarrow> int \<Rightarrow> bool" where
  "overAllocated env componentId =
     (hasMissingShare (componentShares env componentId)
      \<and> 100 < sumPctOf (componentShares env componentId))"

definition dishComponentsOf :: "Env \<Rightarrow> int \<Rightarrow> DishComponentRow list" where
  "dishComponentsOf env dish_id =
     (case select_rows (dish_components env) (\<lambda>c. c_dish_id c = dish_id) of
        Inl _ \<Rightarrow> []
      | Inr comps \<Rightarrow> comps)"

text \<open>The components a donation is computed over.\<close>

definition componentsOf :: "Env \<Rightarrow> DonationRow \<Rightarrow> int list" where
  "componentsOf env donation =
     (case d_component_id donation of
        Some cid \<Rightarrow> [cid]
      | None \<Rightarrow>
          (case d_dish_id donation of
             None \<Rightarrow> []
           | Some did \<Rightarrow> map c_id (dishComponentsOf env did)))"

definition noOverAllocation :: "Env \<Rightarrow> DonationRow \<Rightarrow> bool" where
  "noOverAllocation env donation =
     list_all (\<lambda>cid. \<not> overAllocated env cid) (componentsOf env donation)"

text \<open>
  The plate shares of a donation's dish leave no part of the weight out: the donation
  targets a component, or the dish has no component, or all plate shares are missing or
  sum to at most 0, or the filled shares sum to within the tolerance of 1, by the
  rounding margin at least.
\<close>

definition platesBalanced :: "Env \<Rightarrow> DonationRow \<Rightarrow> bool" where
  "platesBalanced env donation =
     (case d_component_id donation of
        Some cid \<Rightarrow> True
      | None \<Rightarrow>
          (case d_dish_id donation of
             None \<Rightarrow> True
           | Some did \<Rightarrow>
               dishComponentsOf env did = []
               \<or> sumProvidedOf (providedShares (dishComponentsOf env did)) \<le> 0
               \<or> \<bar>sumNums (filledShares (providedShares (dishComponentsOf env did))) - 1\<bar>
                    \<le> PLATE_SHARE_NORMALIZE_EPS - ROUNDING_MARGIN))"

text \<open>
  The fraction \<open>frac\<close> the loop body computes for a row, from its clamped share and the
  factor \<open>normFactor\<close>.
\<close>

definition rowFraction :: "real \<Rightarrow> IngredientRow \<Rightarrow> real" where
  "rowFraction normFactor row =
     leafFrac normFactor
       (case share_of_component row of None \<Rightarrow> None | Some n \<Rightarrow> Some (clamp n 0 100))"

text \<open>
  The loop of \<^verbatim>\<open>computeComponentCarbon\<close> over ingredient rows (lines 294 to 357), started
  from the totals \<open>acc\<close>: the maps are those built from the rows \<open>mappingsData\<close> and
  \<open>foodsData\<close> of the two queries.
\<close>

definition loopOver ::
  "real \<Rightarrow> real \<Rightarrow> MappingRow list \<Rightarrow> LukeFoodRow list \<Rightarrow> Totals \<Rightarrow> IngredientRow list
   \<Rightarrow> Totals" where
  "loopOver componentCookedWeightKg normFactor mappingsData foodsData acc rows =
     foldl (ingredientStep componentCookedWeightKg normFactor
              (mappingByCoreOf mappingsData) (foodByIdOf foodsData))
       acc (zip rows (sharePctByRow rows))"

text \<open>
  \<^verbatim>\<open>computeComponentCarbon\<close> reaches its loop: the weight is positive, the query returns
  the rows \<open>rows\<close>, their clamped shares sum to more than 0 and to less than the limit of
  100.5 by the rounding margin at least, the test for rescaling and the threshold tests
  on rescaled shares are outside the rounding margin, and the two queries return
  \<open>mappingsData\<close> and \<open>foodsData\<close>.
\<close>

definition loopRuns ::
  "Env \<Rightarrow> int \<Rightarrow> real \<Rightarrow> IngredientRow list \<Rightarrow> MappingRow list \<Rightarrow> LukeFoodRow list
   \<Rightarrow> bool" where
  "loopRuns env componentId w rows mappingsData foodsData =
     (0 < w
      \<and> select_rows (component_ingredients env) (\<lambda>r. component_id r = componentId) = Inr rows
      \<and> 0 < sumPctOf (sharePctByRow rows)
      \<and> sumPctOf (sharePctByRow rows) \<le> 100 + ING_SHARE_MAX_OVER_EPS - ROUNDING_MARGIN
      \<and> (hasMissingShare (sharePctByRow rows)
           \<or> \<not> roundingDependent \<bar>sumPctOf (sharePctByRow rows) - 100\<bar> ING_SHARE_NORMALIZE_EPS)
      \<and> \<not> thresholdDependent (normFactorOf (sharePctByRow rows))
            (zip rows (sharePctByRow rows))
      \<and> queryMappings env rows = Inr mappingsData
      \<and> queryFoods env mappingsData = Inr foodsData)"

text \<open>
  The round of \<^verbatim>\<open>computeDonationBreakdown\<close> for a component reaches the loop over its
  rows: the sorted rows of the component are \<open>rows\<close>, their clamped shares sum to more
  than 0 and to less than the limit of 100.5 by the rounding margin at least, and the test
  for rescaling and the threshold tests on rescaled shares are outside the rounding
  margin.
\<close>

definition breakdownLoopRuns :: "IngredientRow list \<Rightarrow> int \<Rightarrow> IngredientRow list \<Rightarrow> bool" where
  "breakdownLoopRuns allIngs componentId rows =
     (compIngsOf allIngs componentId = rows
      \<and> 0 < sumPctOf (sharePctByRow rows)
      \<and> sumPctOf (sharePctByRow rows) \<le> 100 + ING_SHARE_MAX_OVER_EPS - ROUNDING_MARGIN
      \<and> (hasMissingShare (sharePctByRow rows)
           \<or> \<not> roundingDependent \<bar>sumPctOf (sharePctByRow rows) - 100\<bar> ING_SHARE_NORMALIZE_EPS)
      \<and> \<not> thresholdDependent (normFactorOf (sharePctByRow rows))
            (zip rows (sharePctByRow rows)))"

text \<open>
  The loop of a round of \<^verbatim>\<open>computeDonationBreakdown\<close> over ingredient rows (lines 657 to
  897), for the component \<open>component\<close> on the weight \<open>bw\<close>, started from the state \<open>st\<close>.
\<close>

definition breakdownLoopOver ::
  "DishComponentRow \<Rightarrow> real \<Rightarrow> real \<Rightarrow> (string \<Rightarrow> MappingRow option)
   \<Rightarrow> (int \<Rightarrow> LukeFoodRow option) \<Rightarrow> BreakdownState \<Rightarrow> IngredientRow list
   \<Rightarrow> BreakdownState" where
  "breakdownLoopOver component bw normFactor mappings lukeFoods st rows =
     foldl (breakdownRow (c_id component) (componentNameOf component)
              (component_type component) bw normFactor mappings lukeFoods)
       st (zip rows (sharePctByRow rows))"

text \<open>
  The loads of \<^verbatim>\<open>computeDonationBreakdown\<close> for a donation that targets a component:
  the donation is found with the positive weight \<open>dw\<close>, its dish (if it has one) loads as
  \<open>dish\<close>, its component is the row \<open>component\<close> of the database, and the three loads
  return \<open>allIngs\<close>, \<open>mappingsData\<close> and \<open>foodsData\<close>.
\<close>

definition breakdownLoads ::
  "(string \<Rightarrow> string) \<Rightarrow> Env \<Rightarrow> int \<Rightarrow> DonationRow \<Rightarrow> real \<Rightarrow> DishRow option
   \<Rightarrow> DishComponentRow \<Rightarrow> IngredientRow list \<Rightarrow> MappingRow list \<Rightarrow> LukeFoodRow list
   \<Rightarrow> bool" where
  "breakdownLoads nrm env donationId donation dw dish component allIngs mappingsData foodsData =
     (single (select_rows (donations env) (\<lambda>d. d_id d = donationId)) = Some donation
      \<and> donated_weight_kg donation = Some dw \<and> 0 < dw
      \<and> d_component_id donation = Some (c_id component)
      \<and> loadDishOf env donation = Inr dish
      \<and> maybeSingle (select_rows (dish_components env) (\<lambda>c. c_id c = c_id component))
          = Inr (Some component)
      \<and> select_rows (component_ingredients env) (\<lambda>r. component_id r = c_id component)
          = Inr allIngs
      \<and> loadMappings env (breakdownCores nrm allIngs [(component, dw)]) = Inr mappingsData
      \<and> loadLukeFoods env (keptFoodids mappingsData) = Inr foodsData)"

text \<open>
  The mapping that \<^verbatim>\<open>computeComponentFallbackCarbonFromName\<close> finds for a component: the
  first active mapping of the source system for the normalised name of the component's
  row, if there is one.
\<close>

definition nameMappingOf :: "(string \<Rightarrow> string) \<Rightarrow> Env \<Rightarrow> int \<Rightarrow> MappingRow option" where
  "nameMappingOf nrm env componentId =
     (case single (select_rows (dish_components env) (\<lambda>c. c_id c = componentId)) of
        None \<Rightarrow> None
      | Some component \<Rightarrow>
          let core = nrm (case name_raw component of None \<Rightarrow> [] | Some s \<Rightarrow> s) in
          if core = [] \<or> core = ''UNKNOWN'' then None
          else
            (case select_rows (ingredient_mappings env)
                    (\<lambda>m. source_system m = SOURCE_SYSTEM env \<and> is_active m
                          \<and> m_ingredient_core m = core) of
               Inl msg \<Rightarrow> None
             | Inr [] \<Rightarrow> None
             | Inr (mapping # _) \<Rightarrow> Some mapping))"

section \<open>A database for the examples\<close>

definition ingRow :: "int \<Rightarrow> string \<Rightarrow> real option \<Rightarrow> IngredientRow" where
  "ingRow c k s = \<lparr>component_id = c, ingredient_core = k, share_of_component = s,
                   is_water = False, is_salt = False, seq_no = None, base_name = None\<rparr>"

definition mapRow ::
  "string \<Rightarrow> int option \<Rightarrow> string option \<Rightarrow> real option \<Rightarrow> real option \<Rightarrow> MappingRow" where
  "mapRow k f ws y ov = \<lparr>source_system = ''SODEXO'', is_active = True, m_ingredient_core = k,
                        luke_foodid = f, weight_state = ws, yield_cooked_per_raw = y,
                        co2_override_per_kg = ov\<rparr>"

definition compRow :: "int \<Rightarrow> int \<Rightarrow> string \<Rightarrow> real option \<Rightarrow> DishComponentRow" where
  "compRow c d n p = \<lparr>c_id = c, c_dish_id = d, name_raw = Some n, plate_share = p,
                      component_type = None\<rparr>"

definition donRow :: "int \<Rightarrow> int option \<Rightarrow> int option \<Rightarrow> real \<Rightarrow> DonationRow" where
  "donRow i d c w = \<lparr>d_id = i, d_dish_id = d, d_component_id = c, donated_weight_kg = Some w,
                     kitchen_id = None, donated_at = None\<rparr>"

text \<open>
  Component names are already in normal form (capital letters only), so the identity
  stands for \<^verbatim>\<open>normalizeCoreFromName\<close> on them.
\<close>

definition demoEnv :: Env where
  "demoEnv =
     \<lparr>MAPPING_SOURCE_SYSTEM = None,
      donations = Inr
        [donRow 1 (Some 7) None 10,
         donRow 2 (Some 8) None 10,
         donRow 3 (Some 9) None 10,
         donRow 4 (Some 10) None 10,
         donRow 5 None (Some 11) 2,
         donRow 6 None (Some 12) 1,
         donRow 7 None (Some 13) 1,
         donRow 8 None (Some 14) 1,
         donRow 9 None (Some 15) 1,
         donRow 10 None (Some 16) 1,
         donRow 11 None (Some 17) 1,
         donRow 12 None (Some 18) 1,
         donRow 13 None (Some 23) 1,
         donRow 14 None (Some 19) 2],
      dishes = Inr
        [\<lparr>dish_row_id = 9, restaurant_id = ''R'', menu_date = ''2026-01-01'',
          title_fi = None, title_en = None, category = None\<rparr>],
      dish_components = Inr
        [compRow 1 7 ''A'' (Some (6 / 10)),
         compRow 2 7 ''B'' (Some (4 / 10)),
         compRow 3 8 ''C'' (Some (3 / 10)),
         compRow 4 8 ''D'' (Some (3 / 10)),
         compRow 5 9 ''E'' (Some 1),
         compRow 6 9 ''F'' (Some 0),
         compRow 7 10 ''G'' None,
         compRow 8 10 ''H'' None,
         compRow 11 20 ''I'' None,
         compRow 12 20 ''J'' None,
         compRow 13 20 ''BROTH'' None,
         compRow 14 20 ''STEW'' None,
         compRow 15 20 ''K'' None,
         compRow 16 20 ''L'' None,
         compRow 17 20 ''M'' None,
         compRow 18 20 ''N'' None,
         compRow 19 20 ''O'' None,
         compRow 21 20 ''BEEF'' None,
         compRow 22 20 ''PORK'' None,
         compRow 23 20 ''P'' None,
         compRow 24 20 ''LENTIL'' None,
         compRow 25 20 ''SAUCE'' None],
      component_ingredients = Inr
        [ingRow 1 ''RICE'' (Some 100),
         ingRow 6 ''RICE'' (Some 60), ingRow 6 ''BEEF'' (Some 60),
         ingRow 11 ''BEEF'' (Some 50),
         ingRow 12 ''RICE'' (Some 70), ingRow 12 ''BEEF'' None,
         ingRow 13 ''RICE'' None,
         ingRow 14 ''RICE'' None,
         ingRow 15 ''RICE'' (Some 48), ingRow 15 ''LENTIL'' (Some 48),
         ingRow 16 ''RICE'' (Some 52), ingRow 16 ''LENTIL'' (Some 52),
         ingRow 17 ''HERB'' (Some 5), ingRow 17 ''RICE'' (Some 95),
         ingRow 18 ''RICE'' (Some 60), ingRow 18 ''LENTIL'' (Some (202 / 5)),
         ingRow 18 ''BEEF'' None,
         ingRow 19 ''PORK'' (Some 50),
         ingRow 23 ''BROTH'' (Some 60), ingRow 23 ''SAUCE'' (Some 40)],
      ingredient_mappings = Inr
        [mapRow ''RICE'' None (Some ''cooked'') None (Some (3 / 2)),
         mapRow ''BEEF'' (Some 10) (Some ''RAW'') (Some (1 / 2)) None,
         mapRow ''HERB'' None (Some ''cooked'') None (Some 3),
         mapRow ''LENTIL'' (Some 11) (Some ''Steamed'') None None,
         mapRow ''BROTH'' None None None (Some 1),
         mapRow ''STEW'' None (Some ''cooked'') None (Some 2),
         mapRow ''PORK'' (Some 10) (Some ''raw'') None None,
         mapRow ''SAUCE'' None (Some []) None (Some 1)],
      luke_foods = Inr
        [\<lparr>foodid = 10, kg_co2e_per_kg = Some 2, g_co2e_per_100g = None\<rparr>,
         \<lparr>foodid = 11, kg_co2e_per_kg = None, g_co2e_per_100g = Some 150\<rparr>]\<rparr>"

section \<open>Mass accounting of a component\<close>


lemma sumNums_sum_list: "sumNums xs = sum_list xs"
proof -
  have "foldl (\<lambda>acc v. acc + v) a xs = a + sum_list xs" for a :: real
    by (induction xs arbitrary: a) simp_all
  then show ?thesis by (simp add: sumNums_def)
qed

lemma massOf_ingredientStep:
  "massOf (ingredientStep w nf mbc fbi acc rp) = massOf acc + w * leafFrac nf (snd rp)"
  by (simp add: ingredientStep_def massOf_def leafFrac_def Let_def split: option.splits)

lemma massOf_foldl_ingredientStep:
  "massOf (foldl (ingredientStep w nf mbc fbi) acc ps)
     = massOf acc + w * sum_list (map (\<lambda>rp. leafFrac nf (snd rp)) ps)"
  by (induction ps arbitrary: acc) (simp_all add: massOf_ingredientStep algebra_simps)



lemma sharePctByRow_range:
  "Some p \<in> set (sharePctByRow rows) \<Longrightarrow> 0 \<le> p \<and> p \<le> 100"
  by (auto simp: sharePctByRow_def clamp_def split: option.splits)

lemma validShares_nonneg:
  "x \<in> set (validShares (sharePctByRow rows)) \<Longrightarrow> 0 \<le> x"
  by (auto simp: validShares_def sharePctByRow_def clamp_def split: option.splits)


lemma sum_leafFrac_unscaled:
  assumes "\<forall>p. Some p \<in> set shares \<longrightarrow> 0 \<le> p \<and> p \<le> 100"
  shows "sum_list (map (leafFrac 1) shares) = sumPctOf shares / 100"
  using assms
proof (induction shares)
  case Nil
  then show ?case by (simp add: sumPctOf_def validShares_def sumNums_sum_list)
next
  case (Cons sp shares)
  then have ih: "sum_list (map (leafFrac 1) shares) = sumPctOf shares / 100" by simp
  have hd: "leafFrac 1 sp = (case sp of None \<Rightarrow> 0 | Some x \<Rightarrow> x) / 100"
    using Cons.prems by (cases sp) (auto simp: leafFrac_def clamp_def)
  show ?case
    using ih hd
    by (simp add: sumPctOf_def validShares_def sumNums_sum_list add_divide_distrib)
qed



lemma map_snd_zip_same: "length xs = length ys \<Longrightarrow> map (\<lambda>rp. f (snd rp)) (zip xs ys) = map f ys"
  by (induction xs ys rule: list_induct2) simp_all

lemma mass_zeroTotals: "massOf zeroTotals = 0"
  by (simp add: massOf_def zeroTotals_def)




lemma length_sharePctByRow: "length (sharePctByRow rows) = length rows"
  by (simp add: sharePctByRow_def)



section \<open>Mass accounting of a dish\<close>









lemma sum_list_const_inverse:
  "comps \<noteq> [] \<Longrightarrow> sum_list (map (\<lambda>_. 1 / real (length comps)) comps) = 1"
  by (simp add: sum_list_triv)

lemma sum_list_div_self:
  fixes xs :: "real list"
  shows "sum_list xs \<noteq> 0 \<Longrightarrow> sum_list (map (\<lambda>s. s / sum_list xs) xs) = 1"
  by (simp add: divide_inverse sum_list_mult_const)

lemma plateShares_cases:
  assumes "plateShares did comps = Inr shares"
  shows "(sumProvidedOf (providedShares comps) \<le> 0
            \<and> shares = map (\<lambda>_. 1 / real (length comps)) comps)
         \<or> (0 < sumNums (filledShares (providedShares comps))
            \<and> \<bar>sumNums (filledShares (providedShares comps)) - 1\<bar> \<le> PLATE_SHARE_NORMALIZE_EPS
            \<and> shares = map (\<lambda>s. s / sumNums (filledShares (providedShares comps)))
                          (filledShares (providedShares comps)))
         \<or> (\<not> sumProvidedOf (providedShares comps) \<le> 0
            \<and> sumNums (filledShares (providedShares comps)) < 1 - PLATE_SHARE_NORMALIZE_EPS
            \<and> shares = filledShares (providedShares comps))"
proof (cases "sumProvidedOf (providedShares comps) \<le> 0")
  case True
  then show ?thesis using assms by (simp add: plateShares_def Let_def)
next
  case False
  let ?f = "sumNums (filledShares (providedShares comps))"
  have body: "(if roundingDependent ?f (1 + PLATE_SHARE_NORMALIZE_EPS)
               then Inl (RoundingDependent did ?f)
               else if ?f > 1 + PLATE_SHARE_NORMALIZE_EPS
               then Inl (PlateShareSumExceeds did ?f)
               else if ?f > 0 \<and> roundingDependent \<bar>?f - 1\<bar> PLATE_SHARE_NORMALIZE_EPS
               then Inl (RoundingDependent did ?f)
               else if ?f > 0 \<and> \<bar>?f - 1\<bar> \<le> PLATE_SHARE_NORMALIZE_EPS
               then Inr (map (\<lambda>s. s / ?f) (filledShares (providedShares comps)))
               else Inr (filledShares (providedShares comps))) = Inr shares"
    using assms False by (simp add: plateShares_def Let_def)
  have le: "?f \<le> 1 + PLATE_SHARE_NORMALIZE_EPS"
    using body by (simp split: if_splits)
  show ?thesis
  proof (cases "0 < ?f \<and> \<bar>?f - 1\<bar> \<le> PLATE_SHARE_NORMALIZE_EPS")
    case True
    then have "shares = map (\<lambda>s. s / ?f) (filledShares (providedShares comps))"
      using body by (simp split: if_splits)
    then show ?thesis using True by simp
  next
    case nn: False
    then have sh: "shares = filledShares (providedShares comps)"
      using body by (simp split: if_splits)
    have "?f < 1 - PLATE_SHARE_NORMALIZE_EPS"
      using nn le unfolding PLATE_SHARE_NORMALIZE_EPS_def by arith
    then show ?thesis using sh False by simp
  qed
qed

lemma plateShares_sum:
  assumes "plateShares did comps = Inr shares" and "comps \<noteq> []"
  shows "sumNums shares = 1 \<or> sumNums shares < 1 - PLATE_SHARE_NORMALIZE_EPS"
  using plateShares_cases [OF assms(1)] assms(2)
  by (auto simp: sumNums_sum_list sum_list_const_inverse sum_list_div_self)







section \<open>Evaluation of the examples\<close>

text \<open>The definitions a concrete computation unfolds.\<close>

lemmas eval_defs =
  computeDonationCarbon_def computeComponentCarbon_def computeComponentFallbackCarbonFromName_def
  fallbackFromMapping_def queryFoodOf_def
  demoEnv_def ingRow_def mapRow_def compRow_def donRow_def
  single_def select_rows_def lastWhere_def foodidsOf_def List.map_filter_def
  queryMappings_def mappingByCoreOf_def queryFoods_def foodByIdOf_def withRemainder_def
  sharePctByRow_def sumPctOf_def validShares_def sumNums_def clamp_def hasMissingShare_def
  normFactorOf_def ingredientStep_def zeroTotals_def weightStateOf_def toLowerCase_def
  lowerChar_def getCo2FactorKgPerKg_def donationResult_def addTotals_def dishLoop.simps
  plateShares_def providedShares_def sumProvidedOf_def filledShares_def
  MIN_SHARE_FRAC_def PLATE_SHARE_NORMALIZE_EPS_def ING_SHARE_NORMALIZE_EPS_def
  ING_SHARE_MAX_OVER_EPS_def SOURCE_SYSTEM_def ROUNDING_MARGIN_def roundingDependent_def
  thresholdDependent_def
  componentShares_def overAllocated_def dishComponentsOf_def componentsOf_def
  platesBalanced_def noOverAllocation_def accountedMass_def massOf_def
  loopRuns_def loopOver_def rowFraction_def leafFrac_def nameMappingOf_def
  breakdownLoopRuns_def breakdownLoads_def breakdownRemainder_def breakdownLoopOver_def
  computeDonationBreakdown_def allocationsOf_def maybeSingle_def breakdownLoop.simps
  breakdownComponent_def breakdownRow_def breakdownFallback_def breakdownCores_def
  loadMappings_def keptFoodids_def loadLukeFoods_def emptyState_def pushItem_def
  componentNameOf_def baseNameOf_def compIngsOf_def loadDishOf_def breakdownResult_def
  trim_def isSpace_def showInt_def showNat.simps resolveFactor_def Let_def

section \<open>C1: conservation of the donated mass\<close>












section \<open>Unfolding the component computation\<close>

lemma sumPctOf_Nil: "sumPctOf (sharePctByRow []) = 0"
  by (simp add: sumPctOf_def sharePctByRow_def validShares_def sumNums_def)

lemma componentShares_rows:
  "select_rows (component_ingredients env) (\<lambda>r. component_id r = cid) = Inr rows
   \<Longrightarrow> componentShares env cid = sharePctByRow rows"
  by (simp add: componentShares_def)

lemma componentShares_positive_rows:
  assumes "0 < sumPctOf (componentShares env cid)"
  obtains rows where
    "select_rows (component_ingredients env) (\<lambda>r. component_id r = cid) = Inr rows"
    "rows \<noteq> []" "componentShares env cid = sharePctByRow rows"
proof (cases "select_rows (component_ingredients env) (\<lambda>r. component_id r = cid)")
  case (Inl msg)
  then have "sumPctOf (componentShares env cid) = 0"
    using sumPctOf_Nil by (simp add: componentShares_def sharePctByRow_def)
  then show ?thesis using assms by simp
next
  case (Inr rows)
  then have cs: "componentShares env cid = sharePctByRow rows" by (rule componentShares_rows)
  then have "rows \<noteq> []" using assms sumPctOf_Nil by auto
  then show ?thesis using that Inr cs by blast
qed

lemma not_roundingDependent_below:
  "x \<le> bound - ROUNDING_MARGIN \<Longrightarrow> \<not> roundingDependent x bound \<and> \<not> bound < x"
  by (simp add: roundingDependent_def ROUNDING_MARGIN_def)


lemma not_thresholdDependent_unscaled: "\<not> thresholdDependent 1 rowShares"
  by (simp add: thresholdDependent_def)

lemma computeComponentCarbon_loop:
  assumes run: "loopRuns env cid w rows md fd"
  shows "computeComponentCarbon nrm env cid w
           = Inr (withRemainder w (sumPctOf (sharePctByRow rows)) (normFactorOf (sharePctByRow rows))
                    (loopOver w (normFactorOf (sharePctByRow rows)) md fd zeroTotals rows))"
proof -
  let ?S = "sumPctOf (sharePctByRow rows)"
  have w: "0 < w"
    and rows: "select_rows (component_ingredients env) (\<lambda>r. component_id r = cid) = Inr rows"
    and pos: "0 < ?S"
    and le: "?S \<le> 100 + ING_SHARE_MAX_OVER_EPS - ROUNDING_MARGIN"
    and nf: "hasMissingShare (sharePctByRow rows)
             \<or> \<not> roundingDependent \<bar>?S - 100\<bar> ING_SHARE_NORMALIZE_EPS"
    and th: "\<not> thresholdDependent (normFactorOf (sharePctByRow rows))
                 (zip rows (sharePctByRow rows))"
    and md: "queryMappings env rows = Inr md"
    and fd: "queryFoods env md = Inr fd"
    using run by (simp_all add: loopRuns_def)
  have ne: "rows \<noteq> []" using pos sumPctOf_Nil by auto
  have lim: "\<not> roundingDependent ?S (100 + ING_SHARE_MAX_OVER_EPS)
             \<and> \<not> 100 + ING_SHARE_MAX_OVER_EPS < ?S"
    using le by (rule not_roundingDependent_below)
  have guard: "\<not> (\<not> hasMissingShare (sharePctByRow rows)
                  \<and> roundingDependent \<bar>?S - 100\<bar> ING_SHARE_NORMALIZE_EPS)"
    using nf by blast
  have np: "\<not> ?S \<le> 0" using pos by simp
  show ?thesis
    unfolding computeComponentCarbon_def Let_def loopOver_def
    using w rows ne np lim guard th md fd by simp
qed

lemma sharePctByRow_append:
  "sharePctByRow (pre @ post) = sharePctByRow pre @ sharePctByRow post"
  by (simp add: sharePctByRow_def)

lemma loopOver_append:
  "loopOver w nf md fd acc (pre @ post) = loopOver w nf md fd (loopOver w nf md fd acc pre) post"
  by (simp add: loopOver_def sharePctByRow_append length_sharePctByRow)

lemma loopOver_Cons:
  "loopOver w nf md fd acc (row # post)
     = loopOver w nf md fd
         (ingredientStep w nf (mappingByCoreOf md) (foodByIdOf fd) acc
            (row, case share_of_component row of None \<Rightarrow> None | Some n \<Rightarrow> Some (clamp n 0 100)))
         post"
  by (simp add: loopOver_def sharePctByRow_def)

text \<open>
  The computation of a component split at one of its rows: the loop over the rows before
  it, the loop body on the row, the loop over the rows after it, the remainder.
\<close>

lemma computeComponentCarbon_at_row:
  assumes run: "loopRuns env cid w (pre @ row # post) md fd"
  shows "computeComponentCarbon nrm env cid w
           = Inr (withRemainder w (sumPctOf (sharePctByRow (pre @ row # post)))
                    (normFactorOf (sharePctByRow (pre @ row # post)))
                    (loopOver w (normFactorOf (sharePctByRow (pre @ row # post))) md fd
                       (ingredientStep w (normFactorOf (sharePctByRow (pre @ row # post)))
                          (mappingByCoreOf md) (foodByIdOf fd)
                          (loopOver w (normFactorOf (sharePctByRow (pre @ row # post))) md fd
                             zeroTotals pre)
                          (row, case share_of_component row of
                                  None \<Rightarrow> None
                                | Some n \<Rightarrow> Some (clamp n 0 100)))
                       post))"
  using computeComponentCarbon_loop [OF run, of nrm]
  by (simp add: loopOver_append loopOver_Cons)

lemma ignoredKg_ingredientStep_mono:
  assumes "0 \<le> w"
  shows "ignoredKg acc \<le> ignoredKg (ingredientStep w nf mbc fbi acc rp)"
proof -
  have "0 \<le> w * clamp x 0 1" for x
    using assms by (simp add: clamp_def)
  then show ?thesis
    by (simp add: ingredientStep_def Let_def split: option.splits)
qed

lemma mappedKg_ingredientStep_mono:
  assumes "0 \<le> w"
  shows "mappedKg acc \<le> mappedKg (ingredientStep w nf mbc fbi acc rp)"
proof -
  have "0 \<le> w * clamp x 0 1" for x
    using assms by (simp add: clamp_def)
  then show ?thesis
    by (simp add: ingredientStep_def Let_def split: option.splits)
qed

lemma unmappedKg_ingredientStep_mono:
  assumes "0 \<le> w"
  shows "unmappedKg acc \<le> unmappedKg (ingredientStep w nf mbc fbi acc rp)"
proof -
  have "0 \<le> w * clamp x 0 1" for x
    using assms by (simp add: clamp_def)
  then show ?thesis
    by (simp add: ingredientStep_def Let_def split: option.splits)
qed

lemma foldl_mono:
  fixes g :: "'a \<Rightarrow> real"
  assumes "\<And>acc p. g acc \<le> g (f acc p)"
  shows "g acc \<le> g (foldl f acc ps)"
proof (induction ps arbitrary: acc)
  case Nil
  then show ?case by simp
next
  case (Cons p ps)
  have "g acc \<le> g (f acc p)" by (rule assms)
  also have "\<dots> \<le> g (foldl f (f acc p) ps)" by (rule Cons.IH)
  finally show ?case by simp
qed

lemma ignoredKg_loopOver_mono:
  "0 \<le> w \<Longrightarrow> ignoredKg acc \<le> ignoredKg (loopOver w nf md fd acc rows)"
  unfolding loopOver_def by (rule foldl_mono) (rule ignoredKg_ingredientStep_mono)

lemma mappedKg_loopOver_mono:
  "0 \<le> w \<Longrightarrow> mappedKg acc \<le> mappedKg (loopOver w nf md fd acc rows)"
  unfolding loopOver_def by (rule foldl_mono) (rule mappedKg_ingredientStep_mono)

lemma unmappedKg_loopOver_mono:
  "0 \<le> w \<Longrightarrow> unmappedKg acc \<le> unmappedKg (loopOver w nf md fd acc rows)"
  unfolding loopOver_def by (rule foldl_mono) (rule unmappedKg_ingredientStep_mono)

lemma unmappedKg_foldl_mono:
  assumes "0 \<le> w"
  shows "unmappedKg acc \<le> unmappedKg (foldl (ingredientStep w nf mbc fbi) acc ps)"
  by (rule foldl_mono) (rule unmappedKg_ingredientStep_mono [OF assms])

lemma withRemainder_fields:
  "ignoredKg (withRemainder w S nf t) = ignoredKg t"
  "mappedKg (withRemainder w S nf t) = mappedKg t"
  "co2eKg (withRemainder w S nf t) = co2eKg t"
  by (simp_all add: withRemainder_def Let_def)




section \<open>Unfolding the breakdown\<close>

lemma pushItem_items: "st_items (pushItem st it) = st_items st @ [it]"
  by (simp add: pushItem_def)

lemma breakdownRow_items:
  "\<exists>it. st_items (breakdownRow cid cname ctype w nf mappings foods st rp) = st_items st @ [it]"
  by (simp add: breakdownRow_def pushItem_def Let_def split: option.splits)

lemma breakdownRow_foldl_items:
  "\<exists>xs. st_items (foldl (breakdownRow cid cname ctype w nf mappings foods) st ps)
           = st_items st @ xs \<and> length xs = length ps"
proof (induction ps arbitrary: st)
  case Nil
  then show ?case by simp
next
  case (Cons p ps)
  obtain it where it: "st_items (breakdownRow cid cname ctype w nf mappings foods st p)
                         = st_items st @ [it]"
    using breakdownRow_items by blast
  obtain xs where xs: "st_items (foldl (breakdownRow cid cname ctype w nf mappings foods)
                                   (breakdownRow cid cname ctype w nf mappings foods st p) ps)
                         = st_items (breakdownRow cid cname ctype w nf mappings foods st p) @ xs"
    and len: "length xs = length ps"
    using Cons.IH by blast
  show ?case
    using it xs len by (intro exI [of _ "it # xs"]) simp
qed

lemma breakdownRemainder_items:
  "\<exists>zs. st_items (breakdownRemainder cid cname ctype w S nf st) = st_items st @ zs"
  by (simp add: breakdownRemainder_def pushItem_def Let_def)

lemma zip_shares_at_row:
  "zip (pre @ row # post) (sharePctByRow (pre @ row # post))
     = zip pre (sharePctByRow pre)
       @ (row, case share_of_component row of None \<Rightarrow> None | Some n \<Rightarrow> Some (clamp n 0 100))
       # zip post (sharePctByRow post)"
  by (simp add: sharePctByRow_def)

lemma resolveFactor_value: "snd (resolveFactor mapping food) = getCo2FactorKgPerKg mapping food"
  by (simp add: resolveFactor_def getCo2FactorKgPerKg_def split: option.splits)

text \<open>The round of a component whose rows reach the loop: the loop, then the remainder.\<close>

lemma breakdownComponent_loop:
  assumes run: "breakdownLoopRuns allIngs (c_id component) rows"
  shows "breakdownComponent nrm allIngs mappings lukeFoods st (component, bw)
           = Inr (breakdownRemainder (c_id component) (componentNameOf component)
                    (component_type component) bw (sumPctOf (sharePctByRow rows))
                    (normFactorOf (sharePctByRow rows))
                    (foldl (breakdownRow (c_id component) (componentNameOf component)
                              (component_type component) bw (normFactorOf (sharePctByRow rows))
                              mappings lukeFoods)
                       st (zip rows (sharePctByRow rows))))"
proof -
  let ?sh = "sharePctByRow rows"
  let ?S = "sumPctOf ?sh"
  have rows: "compIngsOf allIngs (c_id component) = rows"
    and pos: "0 < ?S"
    and le: "?S \<le> 100 + ING_SHARE_MAX_OVER_EPS - ROUNDING_MARGIN"
    and guard: "hasMissingShare ?sh \<or> \<not> roundingDependent \<bar>?S - 100\<bar> ING_SHARE_NORMALIZE_EPS"
    and th: "\<not> thresholdDependent (normFactorOf ?sh) (zip rows ?sh)"
    using run by (simp_all add: breakdownLoopRuns_def)
  have ne: "rows \<noteq> []" using pos sumPctOf_Nil by auto
  have np: "\<not> ?S \<le> 0" using pos by simp
  have lim: "\<not> roundingDependent ?S (100 + ING_SHARE_MAX_OVER_EPS)
             \<and> \<not> 100 + ING_SHARE_MAX_OVER_EPS < ?S"
    using le by (rule not_roundingDependent_below)
  have g: "\<not> (\<not> hasMissingShare ?sh \<and> roundingDependent \<bar>?S - 100\<bar> ING_SHARE_NORMALIZE_EPS)"
    using guard by blast
  show ?thesis
    unfolding breakdownComponent_def Let_def
    using rows ne np lim g th by simp
qed

lemma breakdownLoopOver_items:
  "\<exists>xs. st_items (breakdownLoopOver component bw nf mappings foods st rows) = st_items st @ xs
         \<and> length xs = length rows"
  using breakdownRow_foldl_items [of "c_id component" "componentNameOf component"
      "component_type component" bw nf mappings foods st "zip rows (sharePctByRow rows)"]
  by (simp add: breakdownLoopOver_def length_sharePctByRow)

lemma breakdownLoopOver_at_row:
  "breakdownLoopOver component bw nf mappings foods st (pre @ row # post)
     = breakdownLoopOver component bw nf mappings foods
         (breakdownRow (c_id component) (componentNameOf component) (component_type component)
            bw nf mappings foods (breakdownLoopOver component bw nf mappings foods st pre)
            (row, case share_of_component row of None \<Rightarrow> None | Some n \<Rightarrow> Some (clamp n 0 100)))
         post"
  by (simp add: breakdownLoopOver_def zip_shares_at_row)

text \<open>
  The round of a component at one of its rows: the loop over the rows before the row, the
  loop body on the row, the loop over the rows after it, then the remainder.
\<close>

lemma breakdownComponent_at_row:
  assumes run: "breakdownLoopRuns allIngs (c_id component) (bpre @ row # bpost)"
  shows "breakdownComponent nrm allIngs mappings lukeFoods st (component, bw)
           = Inr (breakdownRemainder (c_id component) (componentNameOf component)
                    (component_type component) bw (sumPctOf (sharePctByRow (bpre @ row # bpost)))
                    (normFactorOf (sharePctByRow (bpre @ row # bpost)))
                    (breakdownLoopOver component bw
                       (normFactorOf (sharePctByRow (bpre @ row # bpost))) mappings lukeFoods
                       (breakdownRow (c_id component) (componentNameOf component)
                          (component_type component) bw
                          (normFactorOf (sharePctByRow (bpre @ row # bpost))) mappings lukeFoods
                          (breakdownLoopOver component bw
                             (normFactorOf (sharePctByRow (bpre @ row # bpost))) mappings
                             lukeFoods st bpre)
                          (row, case share_of_component row of
                                  None \<Rightarrow> None
                                | Some n \<Rightarrow> Some (clamp n 0 100)))
                       bpost))"
  unfolding breakdownComponent_loop [OF run] breakdownLoopOver_at_row [symmetric]
  by (simp add: breakdownLoopOver_def)

text \<open>
  The item pushed for a row stands in the list after the items that were there before the
  round and the items of the rows before the row.
\<close>

lemma breakdown_item_at_row:
  assumes B: "st_items B = st_items (breakdownLoopOver component bw nf mappings foods st bpre)"
  shows "st_items (breakdownRemainder cid cname ctype w S nf'
                     (breakdownLoopOver component bw nf mappings foods (pushItem B it) bpost))
           ! (length (st_items st) + length bpre) = it"
proof -
  obtain xs where xs: "st_items B = st_items st @ xs" and lx: "length xs = length bpre"
    using breakdownLoopOver_items [of component bw nf mappings foods st bpre] B by auto
  obtain ys where ys: "st_items (breakdownLoopOver component bw nf mappings foods
                                   (pushItem B it) bpost)
                         = st_items (pushItem B it) @ ys"
    using breakdownLoopOver_items [of component bw nf mappings foods "pushItem B it" bpost]
    by blast
  obtain zs where zs: "st_items (breakdownRemainder cid cname ctype w S nf'
                                   (breakdownLoopOver component bw nf mappings foods
                                      (pushItem B it) bpost))
                         = st_items (breakdownLoopOver component bw nf mappings foods
                                       (pushItem B it) bpost) @ zs"
    using breakdownRemainder_items by blast
  have "st_items (breakdownRemainder cid cname ctype w S nf'
                    (breakdownLoopOver component bw nf mappings foods (pushItem B it) bpost))
          = st_items st @ xs @ it # (ys @ zs)"
    using zs ys xs by (simp add: pushItem_items)
  then show ?thesis using lx by (simp add: nth_append)
qed

text \<open>The breakdown of a donation that targets a component is the round of the component.\<close>

lemma computeDonationBreakdown_component:
  assumes "breakdownLoads nrm env donationId donation dw dish component allIngs md fd"
  shows "computeDonationBreakdown nrm env donationId
           = (case breakdownComponent nrm allIngs (mappingByCoreOf md) (foodByIdOf fd)
                     emptyState (component, dw) of
                Inl e \<Rightarrow> Inl e
              | Inr st \<Rightarrow> Inr (breakdownResult env donation dish dw st))"
  using assms
  by (simp add: breakdownLoads_def computeDonationBreakdown_def allocationsOf_def
           split: sum.splits)


section \<open>Evaluation of the loop\<close>

text \<open>The definitions the value of a loop over concrete rows unfolds.\<close>

lemmas loop_defs =
  loopOver_def withRemainder_def rowFraction_def leafFrac_def
  ingRow_def mapRow_def lastWhere_def mappingByCoreOf_def foodByIdOf_def
  sharePctByRow_def sumPctOf_def validShares_def sumNums_def clamp_def hasMissingShare_def
  normFactorOf_def ingredientStep_def zeroTotals_def weightStateOf_def toLowerCase_def
  lowerChar_def getCo2FactorKgPerKg_def
  MIN_SHARE_FRAC_def ING_SHARE_NORMALIZE_EPS_def ING_SHARE_MAX_OVER_EPS_def

lemmas breakdown_defs =
  breakdownComponent_def breakdownRow_def breakdownRemainder_def breakdownLoopOver_def
  pushItem_def emptyState_def componentNameOf_def baseNameOf_def compIngsOf_def compRow_def
  trim_def isSpace_def showInt_def showNat.simps resolveFactor_def
  roundingDependent_def thresholdDependent_def ROUNDING_MARGIN_def Let_def

lemma zero_le_loopOver:
  assumes "0 \<le> w"
  shows "0 \<le> ignoredKg (loopOver w nf md fd zeroTotals rows)"
    and "0 \<le> mappedKg (loopOver w nf md fd zeroTotals rows)"
    and "0 \<le> unmappedKg (loopOver w nf md fd zeroTotals rows)"
  using ignoredKg_loopOver_mono [OF assms, of zeroTotals nf md fd rows]
    mappedKg_loopOver_mono [OF assms, of zeroTotals nf md fd rows]
    unmappedKg_loopOver_mono [OF assms, of zeroTotals nf md fd rows]
  by (simp_all add: zeroTotals_def)

lemma loopRuns_weight: "loopRuns env cid w rows md fd \<Longrightarrow> 0 \<le> w"
  by (simp add: loopRuns_def)


section \<open>C7: shares below the significance threshold\<close>

text \<open>The item a row below the threshold gets in the breakdown.\<close>

lemma breakdownRow_below_threshold:
  assumes "share_of_component row = Some v"
    and "\<not> is_water row \<and> \<not> is_salt row"
    and "rowFraction nf row < MIN_SHARE_FRAC"
  shows "breakdownRow cid cname ctype w nf mappings foods st
           (row, case share_of_component row of None \<Rightarrow> None | Some n \<Rightarrow> Some (clamp n 0 100))
         = pushItem (st\<lparr>ignoredMass := ignoredMass st + w * rowFraction nf row\<rparr>)
             (newItem cid cname ctype w Ignored ''below 10% threshold'' (ingredient_core row)
                (baseNameOf row) (Some (clamp v 0 100 * nf)) (w * rowFraction nf row)
                None ''none'' None 0 0)"
proof -
  have ten: "showInt (round (MIN_SHARE_FRAC * 100)) = ''10''"
    by (simp add: MIN_SHARE_FRAC_def showInt_def showNat.simps)
  show ?thesis
    using assms
    by (simp add: breakdownRow_def rowFraction_def leafFrac_def Let_def ten)
qed

text \<open>
  C7, amended. Let \<open>row\<close> be an ingredient row that has a share, is neither water nor
  salt, and whose fraction (its clamped share times the factor of the rescaling, over
  100) is below 0.10.
  \<^item> In \<^verbatim>\<open>computeComponentCarbon\<close>, when the component's rows are \<open>pre @ row # post\<close> and
    the computation reaches its loop, the result is: the loop over the rows before it,
    then the row's whole mass \<open>w * fraction\<close> added to the ignored mass and nothing else
    changed, then the loop over the rows after it, then the remainder. So the mass of the
    row is in the ignored mass of the result, and it adds nothing to the mapped mass or to
    the emissions, whatever mapping and factor the tables hold for its core. No reason is
    recorded: the result has the four totals only.
  \<^item> In \<^verbatim>\<open>computeDonationBreakdown\<close>, when the sorted rows of the component are
    \<open>bpre @ row # bpost\<close> and the round of the component reaches its loop, the round is:
    the loop over the rows before it, then the row's mass \<open>bw * fraction\<close> added to the
    ignored mass and an item pushed for the row, then the loop over the rows after it, then
    the remainder. The item (it stands after the items of the rows before it) has the
    status ignored, the reason \<open>below 10% threshold\<close>, the mass \<open>bw * fraction\<close>, no
    factor and no emissions. The breakdown of a donation that targets the component is
    this round.
\<close>

theorem below_threshold_ignored:
  assumes run: "loopRuns env componentId w (pre @ row # post) mappingsData foodsData"
    and share: "share_of_component row = Some v"
    and flags: "\<not> is_water row \<and> \<not> is_salt row"
    and small: "rowFraction (normFactorOf (sharePctByRow (pre @ row # post))) row
                  < MIN_SHARE_FRAC"
  shows "let shares = sharePctByRow (pre @ row # post);
             normFactor = normFactorOf shares;
             before = loopOver w normFactor mappingsData foodsData zeroTotals pre;
             cookedKg = w * rowFraction normFactor row;
             bshares = sharePctByRow (bpre @ row # bpost);
             bnormFactor = normFactorOf bshares;
             bbefore = breakdownLoopOver component bw bnormFactor mappings lukeFoods st bpre;
             bcookedKg = bw * rowFraction bnormFactor row;
             bitem = newItem (c_id component) (componentNameOf component)
                       (component_type component) bw
                       Ignored ''below 10% threshold'' (ingredient_core row) (baseNameOf row)
                       (Some (clamp v 0 100 * bnormFactor)) bcookedKg None ''none'' None 0 0
         in computeComponentCarbon nrm env componentId w
              = Inr (withRemainder w (sumPctOf shares) normFactor
                       (loopOver w normFactor mappingsData foodsData
                          (before\<lparr>ignoredKg := ignoredKg before + cookedKg\<rparr>) post))
            \<and> (case computeComponentCarbon nrm env componentId w of
                  Inl e \<Rightarrow> False
                | Inr t \<Rightarrow> cookedKg \<le> ignoredKg t)
            \<and> (breakdownLoopRuns allIngs (c_id component) (bpre @ row # bpost)
                  \<and> rowFraction bnormFactor row < MIN_SHARE_FRAC \<longrightarrow>
                breakdownComponent nrm allIngs mappings lukeFoods st (component, bw)
                  = Inr (breakdownRemainder (c_id component) (componentNameOf component)
                           (component_type component) bw (sumPctOf bshares) bnormFactor
                           (breakdownLoopOver component bw bnormFactor mappings lukeFoods
                              (pushItem (bbefore\<lparr>ignoredMass := ignoredMass bbefore + bcookedKg\<rparr>)
                                 bitem)
                              bpost))
                \<and> (case breakdownComponent nrm allIngs mappings lukeFoods st (component, bw) of
                      Inl e \<Rightarrow> False
                    | Inr st' \<Rightarrow> st_items st' ! (length (st_items st) + length bpre) = bitem))
            \<and> (breakdownLoads nrm env donationId donation dw dish component allIngs
                  bmappings bfoods \<longrightarrow>
                computeDonationBreakdown nrm env donationId
                  = (case breakdownComponent nrm allIngs (mappingByCoreOf bmappings)
                            (foodByIdOf bfoods) emptyState (component, dw) of
                       Inl e \<Rightarrow> Inl e
                     | Inr st' \<Rightarrow> Inr (breakdownResult env donation dish dw st')))"
proof -
  let ?nf = "normFactorOf (sharePctByRow (pre @ row # post))"
  let ?B = "loopOver w ?nf mappingsData foodsData zeroTotals pre"
  let ?c = "w * rowFraction ?nf row"
  let ?bfac = "normFactorOf (sharePctByRow (bpre @ row # bpost))"
  have w: "0 \<le> w" using run by (rule loopRuns_weight)
  have step: "ingredientStep w ?nf (mappingByCoreOf mappingsData) (foodByIdOf foodsData) ?B
                (row, case share_of_component row of
                        None \<Rightarrow> None
                      | Some n \<Rightarrow> Some (clamp n 0 100))
              = ?B\<lparr>ignoredKg := ignoredKg ?B + ?c\<rparr>"
    using share flags small
    by (auto simp: ingredientStep_def rowFraction_def leafFrac_def Let_def)
  have eq: "computeComponentCarbon nrm env componentId w
              = Inr (withRemainder w (sumPctOf (sharePctByRow (pre @ row # post))) ?nf
                       (loopOver w ?nf mappingsData foodsData
                          (?B\<lparr>ignoredKg := ignoredKg ?B + ?c\<rparr>) post))"
    using computeComponentCarbon_at_row [OF run, of nrm] by (simp only: step)
  have "?c \<le> ignoredKg (?B\<lparr>ignoredKg := ignoredKg ?B + ?c\<rparr>)"
    using zero_le_loopOver(1) [OF w, of ?nf mappingsData foodsData pre] by simp
  also have "\<dots> \<le> ignoredKg (loopOver w ?nf mappingsData foodsData
                                  (?B\<lparr>ignoredKg := ignoredKg ?B + ?c\<rparr>) post)"
    using w by (rule ignoredKg_loopOver_mono)
  finally have "?c \<le> ignoredKg (withRemainder w (sumPctOf (sharePctByRow (pre @ row # post)))
                                  ?nf (loopOver w ?nf mappingsData foodsData
                                         (?B\<lparr>ignoredKg := ignoredKg ?B + ?c\<rparr>) post))"
    by (simp only: withRemainder_fields)
  then have bound: "case computeComponentCarbon nrm env componentId w of
                      Inl e \<Rightarrow> False
                    | Inr t \<Rightarrow> ?c \<le> ignoredKg t"
    using eq by simp
  let ?bsh = "sharePctByRow (bpre @ row # bpost)"
  let ?bB = "breakdownLoopOver component bw ?bfac mappings lukeFoods st bpre"
  let ?bc = "bw * rowFraction ?bfac row"
  let ?it = "newItem (c_id component) (componentNameOf component) (component_type component) bw
               Ignored ''below 10% threshold'' (ingredient_core row) (baseNameOf row)
               (Some (clamp v 0 100 * ?bfac)) ?bc None ''none'' None 0 0"
  let ?R = "breakdownRemainder (c_id component) (componentNameOf component)
              (component_type component) bw (sumPctOf ?bsh) ?bfac
              (breakdownLoopOver component bw ?bfac mappings lukeFoods
                 (pushItem (?bB\<lparr>ignoredMass := ignoredMass ?bB + ?bc\<rparr>) ?it) bpost)"
  have round: "breakdownComponent nrm allIngs mappings lukeFoods st (component, bw) = Inr ?R
               \<and> (case breakdownComponent nrm allIngs mappings lukeFoods st (component, bw) of
                     Inl e \<Rightarrow> False
                   | Inr st' \<Rightarrow> st_items st' ! (length (st_items st) + length bpre) = ?it)"
    if h: "breakdownLoopRuns allIngs (c_id component) (bpre @ row # bpost)
           \<and> rowFraction ?bfac row < MIN_SHARE_FRAC"
  proof -
    have brun: "breakdownLoopRuns allIngs (c_id component) (bpre @ row # bpost)"
      using h by simp
    have bstep: "breakdownRow (c_id component) (componentNameOf component)
                   (component_type component) bw ?bfac mappings lukeFoods ?bB
                   (row, case share_of_component row of
                           None \<Rightarrow> None
                         | Some n \<Rightarrow> Some (clamp n 0 100))
                 = pushItem (?bB\<lparr>ignoredMass := ignoredMass ?bB + ?bc\<rparr>) ?it"
      using share flags h by (intro breakdownRow_below_threshold) simp_all
    have beq: "breakdownComponent nrm allIngs mappings lukeFoods st (component, bw) = Inr ?R"
      using breakdownComponent_at_row [OF brun, of nrm mappings lukeFoods st bw]
      by (simp only: bstep)
    have "st_items ?R ! (length (st_items st) + length bpre) = ?it"
      by (rule breakdown_item_at_row) simp
    then show ?thesis using beq by simp
  qed
  have whole: "computeDonationBreakdown nrm env donationId
                  = (case breakdownComponent nrm allIngs (mappingByCoreOf bmappings)
                            (foodByIdOf bfoods) emptyState (component, dw) of
                       Inl e \<Rightarrow> Inl e
                     | Inr st' \<Rightarrow> Inr (breakdownResult env donation dish dw st'))"
    if "breakdownLoads nrm env donationId donation dw dish component allIngs bmappings bfoods"
    using that by (rule computeDonationBreakdown_component)
  show ?thesis
    unfolding Let_def using eq bound round whole by blast
qed

text \<open>
  Component 17 has the rows HERB at 5 and RICE at 95. HERB has an active mapping with an
  override of 3, yet its 0.05 kg are ignored and the emissions are those of the rice
  alone. Donation 11 targets the component with 1 kg.
\<close>

lemma demo_run_17:
  "loopRuns demoEnv 17 1 [ingRow 17 ''HERB'' (Some 5), ingRow 17 ''RICE'' (Some 95)]
     [mapRow ''RICE'' None (Some ''cooked'') None (Some (3 / 2)),
      mapRow ''HERB'' None (Some ''cooked'') None (Some 3)] []"
  by (simp add: eval_defs)

lemma demo_breakdown_run_17:
  "breakdownLoopRuns [ingRow 17 ''HERB'' (Some 5), ingRow 17 ''RICE'' (Some 95)] 17
     [ingRow 17 ''HERB'' (Some 5), ingRow 17 ''RICE'' (Some 95)]"
  by (simp add: eval_defs)

lemma demo_breakdown_loads_11:
  "breakdownLoads id demoEnv 11 (donRow 11 None (Some 17) 1) 1 None (compRow 17 20 ''M'' None)
     [ingRow 17 ''HERB'' (Some 5), ingRow 17 ''RICE'' (Some 95)]
     [mapRow ''RICE'' None (Some ''cooked'') None (Some (3 / 2)),
      mapRow ''HERB'' None (Some ''cooked'') None (Some 3)] []"
  by (simp add: eval_defs)

theorem below_threshold_ignored_witness:
  "loopRuns demoEnv 17 1 [ingRow 17 ''HERB'' (Some 5), ingRow 17 ''RICE'' (Some 95)]
     [mapRow ''RICE'' None (Some ''cooked'') None (Some (3 / 2)),
      mapRow ''HERB'' None (Some ''cooked'') None (Some 3)] []
   \<and> rowFraction (normFactorOf (sharePctByRow
                      [ingRow 17 ''HERB'' (Some 5), ingRow 17 ''RICE'' (Some 95)]))
        (ingRow 17 ''HERB'' (Some 5)) = 1 / 20
   \<and> mappingByCoreOf [mapRow ''RICE'' None (Some ''cooked'') None (Some (3 / 2)),
                       mapRow ''HERB'' None (Some ''cooked'') None (Some 3)] ''HERB''
       = Some (mapRow ''HERB'' None (Some ''cooked'') None (Some 3))
   \<and> getCo2FactorKgPerKg (Some (mapRow ''HERB'' None (Some ''cooked'') None (Some 3))) None
       = Some 3
   \<and> computeComponentCarbon id demoEnv 17 1
       = Inr \<lparr>co2eKg = 57 / 40, unmappedKg = 0, mappedKg = 19 / 20, ignoredKg = 1 / 20\<rparr>
   \<and> breakdownLoopRuns [ingRow 17 ''HERB'' (Some 5), ingRow 17 ''RICE'' (Some 95)] 17
       [ingRow 17 ''HERB'' (Some 5), ingRow 17 ''RICE'' (Some 95)]
   \<and> breakdownLoads id demoEnv 11 (donRow 11 None (Some 17) 1) 1 None
       (compRow 17 20 ''M'' None)
       [ingRow 17 ''HERB'' (Some 5), ingRow 17 ''RICE'' (Some 95)]
       [mapRow ''RICE'' None (Some ''cooked'') None (Some (3 / 2)),
        mapRow ''HERB'' None (Some ''cooked'') None (Some 3)] []
   \<and> computeDonationBreakdown id demoEnv 11
       = Inr (breakdownResult demoEnv (donRow 11 None (Some 17) 1) None 1
                \<lparr>st_items =
                   [newItem 17 ''M'' None 1 Ignored ''below 10% threshold'' ''HERB'' ''HERB''
                      (Some 5) (1 / 20) None ''none'' None 0 0,
                    newItem 17 ''M'' None 1 Mapped ''ok'' ''RICE'' ''RICE''
                      (Some 95) (19 / 20) None ''override'' (Some (3 / 2)) (19 / 20) (57 / 40)],
                 totalCo2 = 57 / 40, mappedMass = 19 / 20, ignoredMass = 1 / 20,
                 unmappedMass = 0\<rparr>)"
proof -
  let ?herb = "ingRow 17 ''HERB'' (Some 5)"
  let ?rice = "ingRow 17 ''RICE'' (Some 95)"
  let ?md = "[mapRow ''RICE'' None (Some ''cooked'') None (Some (3 / 2)),
              mapRow ''HERB'' None (Some ''cooked'') None (Some 3)]"
  let ?comp = "compRow 17 20 ''M'' None"
  let ?don = "donRow 11 None (Some 17) 1"
  have share: "share_of_component ?herb = Some 5" by (simp add: ingRow_def)
  have flags: "\<not> is_water ?herb \<and> \<not> is_salt ?herb" by (simp add: ingRow_def)
  have frac: "rowFraction (normFactorOf (sharePctByRow [?herb, ?rice])) ?herb = 1 / 20"
    by (simp add: loop_defs)
  have small: "rowFraction (normFactorOf (sharePctByRow ([] @ ?herb # [?rice]))) ?herb
                 < MIN_SHARE_FRAC"
    using frac by (simp add: MIN_SHARE_FRAC_def)
  have run: "loopRuns demoEnv 17 1 ([] @ ?herb # [?rice]) ?md []"
    using demo_run_17 by simp
  note T = below_threshold_ignored [where bpre = "[]" and bpost = "[?rice]"
      and allIngs = "[?herb, ?rice]" and component = ?comp
      and mappings = "mappingByCoreOf ?md" and lukeFoods = "foodByIdOf []" and st = emptyState
      and bw = 1 and donationId = 11 and donation = ?don and dw = 1 and dish = None
      and bmappings = ?md and bfoods = "[]" and nrm = id,
      OF run share flags small, unfolded Let_def]
  note T1 = T [THEN conjunct1]
  have res: "computeComponentCarbon id demoEnv 17 1
       = Inr \<lparr>co2eKg = 57 / 40, unmappedKg = 0, mappedKg = 19 / 20, ignoredKg = 1 / 20\<rparr>"
    unfolding T1 by (simp add: loop_defs)
  note T4 = T [THEN conjunct2, THEN conjunct2, THEN conjunct2, THEN mp,
                OF demo_breakdown_loads_11]
  have bres: "computeDonationBreakdown id demoEnv 11
       = Inr (breakdownResult demoEnv ?don None 1
                \<lparr>st_items =
                   [newItem 17 ''M'' None 1 Ignored ''below 10% threshold'' ''HERB'' ''HERB''
                      (Some 5) (1 / 20) None ''none'' None 0 0,
                    newItem 17 ''M'' None 1 Mapped ''ok'' ''RICE'' ''RICE''
                      (Some 95) (19 / 20) None ''override'' (Some (3 / 2)) (19 / 20) (57 / 40)],
                 totalCo2 = 57 / 40, mappedMass = 19 / 20, ignoredMass = 1 / 20,
                 unmappedMass = 0\<rparr>)"
    unfolding T4
    by (simp add: breakdown_defs loop_defs)
  have m: "mappingByCoreOf ?md ''HERB'' = Some (mapRow ''HERB'' None (Some ''cooked'') None (Some 3))"
    by (simp add: loop_defs)
  have f: "getCo2FactorKgPerKg (Some (mapRow ''HERB'' None (Some ''cooked'') None (Some 3))) None
             = Some 3"
    by (simp add: loop_defs)
  from demo_run_17 frac m f res demo_breakdown_run_17 demo_breakdown_loads_11 bres
  show ?thesis by blast
qed

text \<open>
  C7 as stated fails on the reason: the item of the HERB row in the breakdown of donation
  11 is ignored with the reason \<open>below 10% threshold\<close> (the number is
  \<^verbatim>\<open>Math.round(MIN_SHARE_FRAC * 100)\<close>), not \<open>below significance threshold\<close>; the result of
  \<^verbatim>\<open>computeDonationCarbon\<close> has no reason at all.
\<close>

theorem threshold_reason_counterexample:
  "(case computeDonationBreakdown id demoEnv 11 of
      Inl e \<Rightarrow> []
    | Inr b \<Rightarrow> map (\<lambda>i. (item_ingredient_core i, share_pct i, status i, reason i,
                          cooked_mass_kg i, co2e_kg i)) (items b))
     = [(''HERB'', Some 5, Ignored, ''below 10% threshold'', 1 / 20, 0),
        (''RICE'', Some 95, Mapped, ''ok'', 19 / 20, 57 / 40)]
   \<and> ''below 10% threshold'' \<noteq> ''below significance threshold''"
  by (simp add: eval_defs newItem_def)


section \<open>C4: raw weight state\<close>










section \<open>C3: priority of the emission factors\<close>




section \<open>C9: missing and unknown weight states\<close>









section \<open>C10: unusable shares fall back to the component name\<close>

text \<open>
  C10. A component that has ingredient rows whose clamped shares sum to at most 0 is
  computed by the name fallback alone, on its whole weight: the rows play no part in the
  result, which is whatever the mapping of the component's name gives (mapped, ignored or
  unmapped).
\<close>

theorem unusable_shares_fall_back:
  assumes rows: "select_rows (component_ingredients env) (\<lambda>r. component_id r = componentId)
                   = Inr rows"
    and ne: "rows \<noteq> []"
    and unusable: "sumPctOf (sharePctByRow rows) \<le> 0"
  shows "(0 < w \<longrightarrow>
            computeComponentCarbon nrm env componentId w
              = computeComponentFallbackCarbonFromName nrm env componentId w)
       \<and> (single (select_rows (donations env) (\<lambda>d. d_id d = donationId)) = Some donation
            \<and> donated_weight_kg donation = Some dw \<and> 0 < dw
            \<and> d_component_id donation = Some componentId \<longrightarrow>
            computeDonationCarbon nrm env donationId
              = (case computeComponentFallbackCarbonFromName nrm env componentId dw of
                   Inl e \<Rightarrow> Inl e
                 | Inr r \<Rightarrow> Inr (donationResult env donation dw (addTotals zeroTotals r))))
       \<and> (c_id c = componentId \<and> 0 < dw' * s \<longrightarrow>
            dishLoop nrm env dw' acc ((c, s) # rest)
              = (case computeComponentFallbackCarbonFromName nrm env componentId (dw' * s) of
                   Inl e \<Rightarrow> Inl e
                 | Inr r \<Rightarrow> dishLoop nrm env dw' (addTotals acc r) rest))"
proof -
  have comp: "computeComponentCarbon nrm env componentId v
                = computeComponentFallbackCarbonFromName nrm env componentId v"
    if "0 < v" for v
    using rows ne unusable that by (simp add: computeComponentCarbon_def Let_def)
  have don: "computeDonationCarbon nrm env donationId
              = (case computeComponentFallbackCarbonFromName nrm env componentId dw of
                   Inl e \<Rightarrow> Inl e
                 | Inr r \<Rightarrow> Inr (donationResult env donation dw (addTotals zeroTotals r)))"
    if "single (select_rows (donations env) (\<lambda>d. d_id d = donationId)) = Some donation
            \<and> donated_weight_kg donation = Some dw \<and> 0 < dw
            \<and> d_component_id donation = Some componentId"
    using that comp [of dw] by (simp add: computeDonationCarbon_def)
  have loop: "dishLoop nrm env dw' acc ((c, s) # rest)
              = (case computeComponentFallbackCarbonFromName nrm env componentId (dw' * s) of
                   Inl e \<Rightarrow> Inl e
                 | Inr r \<Rightarrow> dishLoop nrm env dw' (addTotals acc r) rest)"
    if "c_id c = componentId \<and> 0 < dw' * s"
    using that comp [of "dw' * s"] by (simp add: Let_def)
  from comp don loop show ?thesis by blast
qed

lemma demo_fallback_13:
  "computeComponentFallbackCarbonFromName id demoEnv 13 1
     = Inr \<lparr>co2eKg = 0, unmappedKg = 0, mappedKg = 0, ignoredKg = 1\<rparr>"
  by (simp add: eval_defs)

lemma demo_fallback_14:
  "computeComponentFallbackCarbonFromName id demoEnv 14 1
     = Inr \<lparr>co2eKg = 2, unmappedKg = 0, mappedKg = 1, ignoredKg = 0\<rparr>"
  by (simp add: eval_defs)

lemma demo_rows_13:
  "select_rows (component_ingredients demoEnv) (\<lambda>r. component_id r = 13)
     = Inr [ingRow 13 ''RICE'' None]"
  by (simp add: demoEnv_def select_rows_def ingRow_def)

lemma demo_rows_14:
  "select_rows (component_ingredients demoEnv) (\<lambda>r. component_id r = 14)
     = Inr [ingRow 14 ''RICE'' None]"
  by (simp add: demoEnv_def select_rows_def ingRow_def)

theorem unusable_shares_fall_back_witness:
  "select_rows (component_ingredients demoEnv) (\<lambda>r. component_id r = 13)
     = Inr [ingRow 13 ''RICE'' None]
   \<and> sumPctOf (sharePctByRow [ingRow 13 ''RICE'' None]) \<le> 0
   \<and> computeComponentCarbon id demoEnv 13 1
       = Inr \<lparr>co2eKg = 0, unmappedKg = 0, mappedKg = 0, ignoredKg = 1\<rparr>
   \<and> select_rows (component_ingredients demoEnv) (\<lambda>r. component_id r = 14)
       = Inr [ingRow 14 ''RICE'' None]
   \<and> sumPctOf (sharePctByRow [ingRow 14 ''RICE'' None]) \<le> 0
   \<and> computeComponentCarbon id demoEnv 14 1
       = Inr \<lparr>co2eKg = 2, unmappedKg = 0, mappedKg = 1, ignoredKg = 0\<rparr>
   \<and> single (select_rows (donations demoEnv) (\<lambda>d. d_id d = 8)) = Some (donRow 8 None (Some 14) 1)
   \<and> computeDonationCarbon id demoEnv 8 =
       Inr \<lparr>r_donation_id = 8, r_dish_id = None, r_component_id = Some 14,
            r_donated_weight_kg = 1, total_co2e_kg = 2, total_food_mass_kg = 1,
            unmapped_mass_kg = 0, co2_per_kg = 2, mapped_mass_kg = 1,
            ignored_mass_kg = 0, mapping_source_system = ''SODEXO''\<rparr>
   \<and> dishLoop id demoEnv 2 zeroTotals [(compRow 14 20 ''STEW'' None, 1 / 2)]
       = Inr \<lparr>co2eKg = 2, unmappedKg = 0, mappedKg = 1, ignoredKg = 0\<rparr>"
proof -
  have s13: "sumPctOf (sharePctByRow [ingRow 13 ''RICE'' None]) \<le> 0"
    and s14: "sumPctOf (sharePctByRow [ingRow 14 ''RICE'' None]) \<le> 0"
    by (simp_all add: sumPctOf_def sharePctByRow_def validShares_def sumNums_def ingRow_def)
  have ne13: "[ingRow 13 ''RICE'' None] \<noteq> []" and ne14: "[ingRow 14 ''RICE'' None] \<noteq> []"
    by simp_all
  have don8: "single (select_rows (donations demoEnv) (\<lambda>d. d_id d = 8))
                = Some (donRow 8 None (Some 14) 1)"
    by (simp add: demoEnv_def single_def select_rows_def donRow_def)
  note T13 = unusable_shares_fall_back [OF demo_rows_13 ne13 s13, where w = 1 and nrm = id]
  note T14 = unusable_shares_fall_back [OF demo_rows_14 ne14 s14, where w = 1 and nrm = id
      and donationId = 8 and donation = "donRow 8 None (Some 14) 1" and dw = 1
      and c = "compRow 14 20 ''STEW'' None" and s = "1 / 2" and dw' = 2 and acc = zeroTotals
      and rest = "[]"]
  have c13: "computeComponentCarbon id demoEnv 13 1
               = Inr \<lparr>co2eKg = 0, unmappedKg = 0, mappedKg = 0, ignoredKg = 1\<rparr>"
    using T13 [THEN conjunct1] demo_fallback_13 by simp
  have c14: "computeComponentCarbon id demoEnv 14 1
               = Inr \<lparr>co2eKg = 2, unmappedKg = 0, mappedKg = 1, ignoredKg = 0\<rparr>"
    using T14 [THEN conjunct1] demo_fallback_14 by simp
  have d8: "computeDonationCarbon id demoEnv 8 =
       Inr \<lparr>r_donation_id = 8, r_dish_id = None, r_component_id = Some 14,
            r_donated_weight_kg = 1, total_co2e_kg = 2, total_food_mass_kg = 1,
            unmapped_mass_kg = 0, co2_per_kg = 2, mapped_mass_kg = 1,
            ignored_mass_kg = 0, mapping_source_system = ''SODEXO''\<rparr>"
    using T14 [THEN conjunct2, THEN conjunct1] don8 demo_fallback_14
    by (simp add: donRow_def donationResult_def addTotals_def zeroTotals_def SOURCE_SYSTEM_def
                  demoEnv_def)
  have l14: "dishLoop id demoEnv 2 zeroTotals [(compRow 14 20 ''STEW'' None, 1 / 2)]
               = Inr \<lparr>co2eKg = 2, unmappedKg = 0, mappedKg = 1, ignoredKg = 0\<rparr>"
    using T14 [THEN conjunct2, THEN conjunct2] demo_fallback_14
    by (simp add: compRow_def addTotals_def zeroTotals_def)
  from demo_rows_13 demo_rows_14 s13 s14 c13 c14 don8 d8 l14 show ?thesis by blast
qed


section \<open>C2: shares that sum to more than 100.5\<close>

text \<open>
  C2 holds of \<^verbatim>\<open>computeComponentCarbon\<close> on a positive weight and of
  \<^verbatim>\<open>computeDonationBreakdown\<close>, but not of \<^verbatim>\<open>computeDonationCarbon\<close> on a dish: its
  loop skips a component whose weight is not positive before the rows of the component
  are read. Dish 9 has the components 5 (plate share 1) and 6 (plate share 0); the rows of
  component 6 have the shares 60 and 60. On any positive weight component 6 throws the
  error with its id and the sum 120, but donation 3 of 10 kg on dish 9 is computed
  without an error. The sibling has no test on the weight: the breakdown of the same
  donation reads the rows of component 6 and throws.
\<close>

theorem zero_weight_component_skips_share_check:
  "map c_id (dishComponentsOf demoEnv 9) = [5, 6]
   \<and> plateShares 9 (dishComponentsOf demoEnv 9) = Inr [1, 0]
   \<and> componentShares demoEnv 6 = [Some 60, Some 60]
   \<and> 100 + ING_SHARE_MAX_OVER_EPS < sumPctOf (componentShares demoEnv 6)
   \<and> computeComponentCarbon id demoEnv 6 1 = Inl (IngredientShareSumExceeds 6 120)
   \<and> computeDonationCarbon id demoEnv 3 =
       Inr \<lparr>r_donation_id = 3, r_dish_id = Some 9, r_component_id = None,
            r_donated_weight_kg = 10, total_co2e_kg = 0, total_food_mass_kg = 10,
            unmapped_mass_kg = 10, co2_per_kg = 0, mapped_mass_kg = 0,
            ignored_mass_kg = 0, mapping_source_system = ''SODEXO''\<rparr>
   \<and> computeDonationBreakdown id demoEnv 3 = Inl (IngredientShareSumExceeds 6 120)"
  by (simp add: eval_defs)


section \<open>C5: the unallocated remainder\<close>

text \<open>
  C5, amended. For a component whose rows have clamped shares that sum to more than 0 and
  at most 100 and are not rescaled (a share is missing, or the sum is more than 5 away
  from 100), and whose uncovered mass \<open>w * (1 - sum / 100)\<close> exceeds \<open>10\<^sup>-\<^sup>9\<close> kg:
  the three masses sum to the component's weight, the uncovered mass is part of the
  unmapped mass, and the mapped and ignored masses together are no more than the covered
  mass. (Rows whose shares sum to at most 0 are not treated this way: see C10.)
\<close>

theorem unallocated_remainder_unmapped:
  assumes res: "computeComponentCarbon nrm env componentId w = Inr t"
    and w: "0 < w"
    and pos: "0 < sumPctOf (componentShares env componentId)"
    and le: "sumPctOf (componentShares env componentId) \<le> 100"
    and nonorm: "hasMissingShare (componentShares env componentId)
                 \<or> ING_SHARE_NORMALIZE_EPS < \<bar>sumPctOf (componentShares env componentId) - 100\<bar>"
    and big: "1 / 10 ^ 9 < w * (1 - sumPctOf (componentShares env componentId) / 100)"
  shows "massOf t = w
         \<and> w * (1 - sumPctOf (componentShares env componentId) / 100) \<le> unmappedKg t
         \<and> mappedKg t + ignoredKg t \<le> w * (sumPctOf (componentShares env componentId) / 100)"
proof -
  obtain rows where
    rows: "select_rows (component_ingredients env) (\<lambda>r. component_id r = componentId) = Inr rows"
    and ne: "rows \<noteq> []" and cs: "componentShares env componentId = sharePctByRow rows"
    using pos by (rule componentShares_positive_rows)
  let ?sh = "sharePctByRow rows"
  let ?S = "sumPctOf ?sh"
  have pos': "0 < ?S" and le': "?S \<le> 100" using pos le cs by simp_all
  have le'': "?S \<le> 100 + ING_SHARE_MAX_OVER_EPS - ROUNDING_MARGIN"
    using le' by (simp add: ING_SHARE_MAX_OVER_EPS_def ROUNDING_MARGIN_def)
  have lim: "\<not> roundingDependent ?S (100 + ING_SHARE_MAX_OVER_EPS)
             \<and> \<not> 100 + ING_SHARE_MAX_OVER_EPS < ?S"
    using le'' by (rule not_roundingDependent_below)
  have np: "\<not> ?S \<le> 0" using pos' by simp
  have guard: "hasMissingShare ?sh \<or> \<not> roundingDependent \<bar>?S - 100\<bar> ING_SHARE_NORMALIZE_EPS"
    using res w rows ne np lim
    by (auto simp: computeComponentCarbon_def Let_def split: if_splits)
  obtain md fd where md: "queryMappings env rows = Inr md" and fd: "queryFoods env md = Inr fd"
    using res w rows ne np lim
    by (auto simp: computeComponentCarbon_def Let_def split: if_splits sum.splits)
  have nf: "normFactorOf ?sh = 1"
    using nonorm cs by (auto simp: normFactorOf_def)
  have run: "loopRuns env componentId w rows md fd"
    using w rows pos' le'' guard md fd
    by (simp add: loopRuns_def nf not_thresholdDependent_unscaled)
  let ?t0 = "loopOver w 1 md fd zeroTotals rows"
  have "computeComponentCarbon nrm env componentId w = Inr (withRemainder w ?S 1 ?t0)"
    using computeComponentCarbon_loop [OF run, of nrm] nf by simp
  then have t: "t = withRemainder w ?S 1 ?t0" using res by simp
  have cl: "clamp (?S * 1 / 100) 0 1 = ?S / 100"
    using pos' le' by (simp add: clamp_def)
  have big': "1 / 10 ^ 9 < w * (1 - ?S / 100)" using big cs by simp
  have t': "t = ?t0\<lparr>unmappedKg := unmappedKg ?t0 + w * (1 - ?S / 100)\<rparr>"
    unfolding t withRemainder_def Let_def cl using big' by simp
  have m0: "massOf ?t0 = w * (?S / 100)"
  proof -
    have "massOf ?t0 = w * sum_list (map (leafFrac 1) ?sh)"
      by (simp add: loopOver_def massOf_foldl_ingredientStep mass_zeroTotals map_snd_zip_same
                    length_sharePctByRow)
    also have "sum_list (map (leafFrac 1) ?sh) = ?S / 100"
      using sharePctByRow_range by (intro sum_leafFrac_unscaled) blast
    finally show ?thesis .
  qed
  have u0: "0 \<le> unmappedKg ?t0"
    using w by (intro zero_le_loopOver(3)) simp
  have split: "w * (?S / 100) + w * (1 - ?S / 100) = w"
    by (simp add: algebra_simps)
  have mt: "massOf t = massOf ?t0 + w * (1 - ?S / 100)"
    by (simp add: t' massOf_def)
  have ut: "unmappedKg t = unmappedKg ?t0 + w * (1 - ?S / 100)"
    by (simp add: t')
  have mi: "mappedKg t + ignoredKg t = massOf ?t0 - unmappedKg ?t0"
    by (simp add: t' massOf_def)
  show ?thesis
    unfolding cs using mt ut mi m0 u0 split by linarith
qed

lemma demo_component_12:
  "computeComponentCarbon id demoEnv 12 1
     = Inr \<lparr>co2eKg = 21 / 20, unmappedKg = 3 / 10, mappedKg = 7 / 10, ignoredKg = 0\<rparr>"
  by (simp add: eval_defs)

lemma demo_shares_12: "componentShares demoEnv 12 = [Some 70, None]"
  by (simp add: eval_defs)

theorem unallocated_remainder_unmapped_witness:
  "computeComponentCarbon id demoEnv 12 1
     = Inr \<lparr>co2eKg = 21 / 20, unmappedKg = 3 / 10, mappedKg = 7 / 10, ignoredKg = 0\<rparr>
   \<and> componentShares demoEnv 12 = [Some 70, None]
   \<and> sumPctOf (componentShares demoEnv 12) = 70
   \<and> hasMissingShare (componentShares demoEnv 12)
   \<and> (1::real) / 10 ^ 9 < 1 * (1 - 70 / 100)
   \<and> massOf \<lparr>co2eKg = 21 / 20, unmappedKg = 3 / 10, mappedKg = 7 / 10, ignoredKg = 0\<rparr> = 1
   \<and> (1::real) * (1 - 70 / 100)
        \<le> unmappedKg \<lparr>co2eKg = 21 / 20, unmappedKg = 3 / 10, mappedKg = 7 / 10, ignoredKg = 0\<rparr>"
proof -
  have s: "sumPctOf (componentShares demoEnv 12) = 70"
    by (simp add: demo_shares_12 sumPctOf_def validShares_def sumNums_def)
  have miss: "hasMissingShare (componentShares demoEnv 12)"
    by (simp add: demo_shares_12 hasMissingShare_def)
  show ?thesis
    using unallocated_remainder_unmapped [OF demo_component_12, unfolded s] miss s
      demo_component_12 demo_shares_12
    by simp
qed

text \<open>
  C5 as stated fails: component 13 has one ingredient row, its share is missing, nothing
  is rescaled, and the whole uncovered mass of 1 kg ends in the ignored mass, because the
  mapping of the component's name has no weight state.
\<close>

theorem remainder_ignored_counterexample:
  "componentShares demoEnv 13 = [None]
   \<and> normFactorOf (componentShares demoEnv 13) = 1
   \<and> computeDonationCarbon id demoEnv 7 =
       Inr \<lparr>r_donation_id = 7, r_dish_id = None, r_component_id = Some 13,
            r_donated_weight_kg = 1, total_co2e_kg = 0, total_food_mass_kg = 1,
            unmapped_mass_kg = 0, co2_per_kg = 0, mapped_mass_kg = 0,
            ignored_mass_kg = 1, mapping_source_system = ''SODEXO''\<rparr>"
  by (simp add: eval_defs)



section \<open>C6: shares close to 100 are rescaled\<close>


















section \<open>C8: equal split of a dish without plate shares\<close>

lemma sumProvidedOf_all_missing:
  "list_all (\<lambda>c. plate_share c = None) comps \<Longrightarrow> sumProvidedOf (providedShares comps) = 0"
proof -
  have "foldl (\<lambda>acc v. acc + (case v of None \<Rightarrow> 0 | Some x \<Rightarrow> x)) a
          (map (\<lambda>c. case plate_share c of None \<Rightarrow> None | Some n \<Rightarrow> Some (clamp n 0 1)) comps) = a"
    if "list_all (\<lambda>c. plate_share c = None) comps" for a :: real
    using that by (induction comps arbitrary: a) simp_all
  then show "list_all (\<lambda>c. plate_share c = None) comps \<Longrightarrow> ?thesis"
    by (simp add: sumProvidedOf_def providedShares_def)
qed

lemma zip_map_same: "zip xs (map f xs) = map (\<lambda>x. (x, f x)) xs"
  by (induction xs) simp_all

text \<open>
  C8. When the plate shares of a dish with components are all missing, or their clamped
  values sum to at most 0, every component gets the share 1/n (in \<^verbatim>\<open>computeDonationCarbon\<close>
  and in \<^verbatim>\<open>normalizeComponentShares\<close>), and the donation is the loop over the components
  with the weight \<open>donated * (1 / n)\<close> each.
\<close>

theorem equal_plate_split:
  assumes "comps \<noteq> []"
    and "list_all (\<lambda>c. plate_share c = None) comps \<or> sumProvidedOf (providedShares comps) \<le> 0"
  shows "plateShares dish_id comps = Inr (map (\<lambda>c. 1 / real (length comps)) comps)
       \<and> normalizeComponentShares comps = map (\<lambda>c. 1 / real (length comps)) comps
       \<and> (single (select_rows (donations env) (\<lambda>d. d_id d = donationId)) = Some donation
            \<and> donated_weight_kg donation = Some dw \<and> 0 < dw
            \<and> d_component_id donation = None \<and> d_dish_id donation = Some dish_id
            \<and> select_rows (dish_components env) (\<lambda>c. c_dish_id c = dish_id) = Inr comps \<longrightarrow>
            computeDonationCarbon nrm env donationId
              = (case dishLoop nrm env dw zeroTotals
                        (map (\<lambda>c. (c, 1 / real (length comps))) comps) of
                   Inl e \<Rightarrow> Inl e
                 | Inr t \<Rightarrow> Inr (donationResult env donation dw t)))
       \<and> (0 < dw \<longrightarrow>
            dishLoop nrm env dw acc (map (\<lambda>c. (c, 1 / real (length comps))) (c0 # rest))
              = (case computeComponentCarbon nrm env (c_id c0) (dw * (1 / real (length comps))) of
                   Inl e \<Rightarrow> Inl e
                 | Inr r \<Rightarrow> dishLoop nrm env dw (addTotals acc r)
                              (map (\<lambda>c. (c, 1 / real (length comps))) rest)))"
proof -
  have le: "sumProvidedOf (providedShares comps) \<le> 0"
    using assms(2) sumProvidedOf_all_missing by auto
  have ps: "plateShares dish_id comps = Inr (map (\<lambda>c. 1 / real (length comps)) comps)"
    using le by (simp add: plateShares_def Let_def)
  have ns: "normalizeComponentShares comps = map (\<lambda>c. 1 / real (length comps)) comps"
    using le by (simp add: normalizeComponentShares_def Let_def)
  have don: "computeDonationCarbon nrm env donationId
              = (case dishLoop nrm env dw zeroTotals
                        (map (\<lambda>c. (c, 1 / real (length comps))) comps) of
                   Inl e \<Rightarrow> Inl e
                 | Inr t \<Rightarrow> Inr (donationResult env donation dw t))"
    if "single (select_rows (donations env) (\<lambda>d. d_id d = donationId)) = Some donation
            \<and> donated_weight_kg donation = Some dw \<and> 0 < dw
            \<and> d_component_id donation = None \<and> d_dish_id donation = Some dish_id
            \<and> select_rows (dish_components env) (\<lambda>c. c_dish_id c = dish_id) = Inr comps"
    using that assms(1) ps by (simp add: computeDonationCarbon_def zip_map_same)
  have pos: "0 < 1 / real (length comps)" using assms(1) by simp
  have step: "dishLoop nrm env dw acc (map (\<lambda>c. (c, 1 / real (length comps))) (c0 # rest))
              = (case computeComponentCarbon nrm env (c_id c0) (dw * (1 / real (length comps))) of
                   Inl e \<Rightarrow> Inl e
                 | Inr r \<Rightarrow> dishLoop nrm env dw (addTotals acc r)
                              (map (\<lambda>c. (c, 1 / real (length comps))) rest))"
    if "0 < dw"
  proof -
    have "\<not> dw * (1 / real (length comps)) \<le> 0"
      using that pos by (simp add: not_le)
    then show ?thesis by (simp add: Let_def del: times_divide_eq_right)
  qed
  show ?thesis using ps ns don step by blast
qed

lemma demo_donation_4:
  "computeDonationCarbon id demoEnv 4 =
     Inr \<lparr>r_donation_id = 4, r_dish_id = Some 10, r_component_id = None,
          r_donated_weight_kg = 10, total_co2e_kg = 0, total_food_mass_kg = 10,
          unmapped_mass_kg = 10, co2_per_kg = 0, mapped_mass_kg = 0,
          ignored_mass_kg = 0, mapping_source_system = ''SODEXO''\<rparr>"
  by (simp add: eval_defs)

theorem equal_plate_split_witness:
  "list_all (\<lambda>c. plate_share c = None) [compRow 7 10 ''G'' None, compRow 8 10 ''H'' None]
   \<and> plateShares 10 [compRow 7 10 ''G'' None, compRow 8 10 ''H'' None] = Inr [1 / 2, 1 / 2]
   \<and> normalizeComponentShares [compRow 7 10 ''G'' None, compRow 8 10 ''H'' None] = [1 / 2, 1 / 2]
   \<and> computeDonationCarbon id demoEnv 4 =
       Inr \<lparr>r_donation_id = 4, r_dish_id = Some 10, r_component_id = None,
            r_donated_weight_kg = 10, total_co2e_kg = 0, total_food_mass_kg = 10,
            unmapped_mass_kg = 10, co2_per_kg = 0, mapped_mass_kg = 0,
            ignored_mass_kg = 0, mapping_source_system = ''SODEXO''\<rparr>"
proof -
  have a: "[compRow 7 10 ''G'' None, compRow 8 10 ''H'' None] \<noteq> []" by simp
  have b: "list_all (\<lambda>c. plate_share c = None) [compRow 7 10 ''G'' None, compRow 8 10 ''H'' None]"
    by (simp add: compRow_def)
  show ?thesis
    using equal_plate_split [OF a disjI1 [OF b], of 10] b demo_donation_4
    by simp
qed


end
